theory Spec2Isabelle
  imports Complex_Main "HOL-Library.Sublist" "HOL-Library.Monad_Syntax"
begin

section \<open>Values, exceptions and the outside world\<close>

subsection \<open>Decoded JSON values\<close>

text \<open>
  The values that \<^verbatim>\<open>req.json()\<close> hands to the clients. The clients compare them with
  Python's \<^verbatim>\<open>==\<close> (\<^verbatim>\<open>x not in processed\<close>, \<^verbatim>\<open>req.json()['tvdbId'] == series_tvdbid\<close>),
  so the representation is chosen to make HOL equality that comparison:
  \<^item> numbers are compared by value in Python (\<^verbatim>\<open>1 == 1.0\<close>, \<^verbatim>\<open>True == 1\<close>), so a number is
    its rational value and the booleans are the numbers one and zero (NaN and the
    infinities are not JSON);
  \<^item> a dict (string keys) is its association list with the keys strictly ascending, so
    that two dicts are equal exactly when they hold the same entries.
\<close>

datatype json = JNull | JNum rat | JStr string | JArr "json list" | JObj "(string \<times> json) list"

abbreviation JTrue :: json where "JTrue \<equiv> JNum 1"
abbreviation JFalse :: json where "JFalse \<equiv> JNum 0"

text \<open>
  Python raises; the model returns the exception as a value. The clients only ever
  distinguish what \<^verbatim>\<open>except Exception\<close> catches from what it lets through, which is the
  \<^verbatim>\<open>SystemExit\<close> that \<^verbatim>\<open>exit()\<close> raises.
\<close>

datatype py_error = Exception | SystemExit

text \<open>\<^verbatim>\<open>try: ... except Exception: log.exception(...)\<close> followed by \<^verbatim>\<open>return d\<close>.\<close>

fun except_Exception :: "py_error + 'a \<Rightarrow> 'a \<Rightarrow> py_error + 'a" where
  "except_Exception (Inr v) d = Inr v"
| "except_Exception (Inl Exception) d = Inr d"
| "except_Exception (Inl SystemExit) d = Inl SystemExit"

text \<open>
  An expression that can only fail with an exception that \<^verbatim>\<open>except Exception\<close> catches
  (KeyError, TypeError, ValueError, a decoding error) has an optional value, \<open>None\<close>
  when it raises; \<open>raising\<close> makes the exception of it.
\<close>

fun raising :: "'a option \<Rightarrow> py_error + 'a" where
  "raising None = Inl Exception"
| "raising (Some v) = Inr v"

text \<open>\<^verbatim>\<open>j[k]\<close> for a string \<open>k\<close>: KeyError on a dict without the key, TypeError on
  anything that is not a dict.\<close>

fun subscript :: "json \<Rightarrow> string \<Rightarrow> json option" where
  "subscript (JObj kvs) k = map_of kvs k"
| "subscript _ k = None"

text \<open>\<^verbatim>\<open>needle in text\<close> on two strings.\<close>

primrec substring :: "string \<Rightarrow> string \<Rightarrow> bool" where
  "substring needle [] = (needle = [])"
| "substring needle (c # cs) = (prefix needle (c # cs) \<or> substring needle cs)"

text \<open>\<^verbatim>\<open>k in j\<close> for a string \<open>k\<close>: key membership in a dict, element membership in a
  list, substring test in a string, TypeError otherwise.\<close>

fun py_in :: "string \<Rightarrow> json \<Rightarrow> bool option" where
  "py_in k (JObj kvs) = Some (k \<in> fst ` set kvs)"
| "py_in k (JArr xs) = Some (JStr k \<in> set xs)"
| "py_in k (JStr s) = Some (substring k s)"
| "py_in k _ = None"

text \<open>\<^verbatim>\<open>len(j)\<close>: the length of a string, a list or a dict, TypeError otherwise.\<close>

fun py_len :: "json \<Rightarrow> nat option" where
  "py_len (JStr s) = Some (length s)"
| "py_len (JArr xs) = Some (length xs)"
| "py_len (JObj kvs) = Some (length kvs)"
| "py_len _ = None"

subsection \<open>Requests and responses\<close>

type_synonym dict = "string \<rightharpoonup> string"

datatype http_method = GET | POST

text \<open>The address of a request: a literal URL, or \<^verbatim>\<open>urljoin(base, path)\<close> kept as the
  two strings it is built from.\<close>

datatype address = Url string | urljoin string string

text \<open>
  What a client hands to \<^verbatim>\<open>requests.get\<close> / \<^verbatim>\<open>requests.post\<close>: the header dict as it is at
  the moment of the call, the \<^verbatim>\<open>page\<close> entry of the query parameters when there is
  one, and the JSON payload (\<open>JNull\<close> when there is none).
\<close>

record request =
  meth :: http_method
  url :: address
  hdrs :: dict
  page :: "int option"
  payload :: json

text \<open>
  The header \<^verbatim>\<open>X-Pagination-Page-Count\<close> as the clients read it: it is absent, or
  \<^verbatim>\<open>int(...)\<close> of it is an integer, or \<^verbatim>\<open>int(...)\<close> raises ValueError.
\<close>

datatype page_count_header = Absent | Count int | NotAnInt

text \<open>
  A response, by what the clients read of it: \<^verbatim>\<open>req.status_code\<close>, the page-count
  header, \<^verbatim>\<open>req.text\<close>, \<^verbatim>\<open>req.json()\<close> (\<open>None\<close> when the body does not decode), and the
  values that \<^verbatim>\<open>for x in req.json()\<close> yields (\<open>None\<close> when the body does not decode or
  its value is not iterable).
\<close>

record response =
  status_code :: int
  page_count :: page_count_header
  text_of :: string
  json_of :: "json option"
  items_of :: "json list option"

text \<open>
  The network: for the \<open>k\<close>-th request of the run and its content, the time the call
  takes and either a response or nothing, when \<^verbatim>\<open>requests\<close> raises (connection error,
  timeout).
\<close>

type_synonym net = "nat \<Rightarrow> request \<Rightarrow> rat \<times> response option"

subsection \<open>The state the clients read and write\<close>

type_synonym ref = nat

text \<open>
  \<^item> \<open>clock\<close>: what \<^verbatim>\<open>time.time()\<close> returns;
  \<^item> \<open>heap\<close>: the dict objects, by address; \<^verbatim>\<open>self.headers\<close> holds an address, and an
    assignment \<^verbatim>\<open>headers = self.headers\<close> copies the address, not the dict;
  \<^item> \<open>sent\<close>: every request made so far, with the clock reading when it was issued;
  \<^item> \<open>slept\<close>: the arguments of the calls of \<^verbatim>\<open>time.sleep\<close> so far;
  \<^item> \<open>cfg_trakt\<close>: the dict \<^verbatim>\<open>self.cfg['trakt']\<close>, in key order;
  \<^item> \<open>stored\<close>: the calls of \<^verbatim>\<open>Config().merge_settings\<close> so far, each as the user name
    and the token response filed under it.
\<close>

record world =
  clock :: rat
  heap :: "ref \<Rightarrow> dict"
  sent :: "(rat \<times> request) list"
  slept :: "rat list"
  cfg_trakt :: "(string \<times> json) list"
  stored :: "(json \<times> json) list"

definition http :: "net \<Rightarrow> request \<Rightarrow> world \<Rightarrow> response option \<times> world" where
  "http srv q w =
     (case srv (length (sent w)) q of
        (took, r) \<Rightarrow> (r, w\<lparr>sent := sent w @ [(clock w, q)], clock := clock w + took\<rparr>))"

text \<open>\<^verbatim>\<open>time.sleep(d)\<close> for a number \<open>d\<close>: ValueError when \<open>d\<close> is negative.\<close>

definition sleep :: "rat \<Rightarrow> world \<Rightarrow> unit option \<times> world" where
  "sleep d w =
     (if d < 0 then (None, w)
      else (Some (), w\<lparr>slept := slept w @ [d], clock := clock w + d\<rparr>))"

section \<open>The Sonarr client (media/sonarr.py)\<close>

record sonarr =
  server_url :: string
  sonarr_api_key :: string
  sonarr_headers :: dict

definition Sonarr_init :: "string \<Rightarrow> string \<Rightarrow> sonarr" where
  "Sonarr_init server key =
     \<lparr>server_url = server, sonarr_api_key = key,
      sonarr_headers = [''Content-Type'' \<mapsto> ''application/json'', ''X-Api-Key'' \<mapsto> key]\<rparr>"

text \<open>\<^verbatim>\<open>Sonarr.validate_api_key\<close>: the request it makes, the body of its \<^verbatim>\<open>try\<close> (\<open>None\<close>
  when that raises), and the function.\<close>

definition status_request :: "sonarr \<Rightarrow> request" where
  "status_request self =
     \<lparr>meth = GET, url = urljoin (server_url self) ''api/system/status'',
      hdrs = sonarr_headers self, page = None, payload = JNull\<rparr>"

definition Sonarr_validate_api_key_try :: "net \<Rightarrow> sonarr \<Rightarrow> world \<Rightarrow> bool option \<times> world" where
  "Sonarr_validate_api_key_try srv self w =
     (case http srv (status_request self) w of
        (None, w1) \<Rightarrow> (None, w1)
      | (Some req, w1) \<Rightarrow>
          (if status_code req = 200 then
             (do { j \<leftarrow> json_of req; b \<leftarrow> py_in ''version'' j; Some (if b then True else False) }, w1)
           else (Some False, w1)))"

definition Sonarr_validate_api_key :: "net \<Rightarrow> sonarr \<Rightarrow> world \<Rightarrow> bool \<times> world" where
  "Sonarr_validate_api_key srv self w =
     (case Sonarr_validate_api_key_try srv self w of
        (None, w1) \<Rightarrow> (False, w1)
      | (Some b, w1) \<Rightarrow> (b, w1))"

text \<open>\<^verbatim>\<open>Sonarr.get_series\<close>, without its decorator: the decoded body, or \<^verbatim>\<open>None\<close>. The
  argument \<^verbatim>\<open>len(resp_json)\<close> of \<^verbatim>\<open>log.debug\<close> is evaluated before the body is returned, so a
  body without a length raises and gives \<^verbatim>\<open>None\<close>.\<close>

definition series_request :: "sonarr \<Rightarrow> request" where
  "series_request self =
     \<lparr>meth = GET, url = urljoin (server_url self) ''api/series'',
      hdrs = sonarr_headers self, page = None, payload = JNull\<rparr>"

definition get_series :: "net \<Rightarrow> sonarr \<Rightarrow> world \<Rightarrow> json option \<times> world" where
  "get_series srv self w =
     (case http srv (series_request self) w of
        (None, w1) \<Rightarrow> (None, w1)
      | (Some req, w1) \<Rightarrow>
          (if status_code req = 200 then
             (case json_of req of
                None \<Rightarrow> (None, w1)
              | Some resp_json \<Rightarrow>
                  (case py_len resp_json of
                     None \<Rightarrow> (None, w1)
                   | Some n \<Rightarrow> (Some resp_json, w1)))
           else (None, w1)))"

text \<open>
  \<^verbatim>\<open>Sonarr.add_series\<close>, without its decorator. The three branches follow the
  \<^verbatim>\<open>if\<close> / \<^verbatim>\<open>elif\<close> / \<^verbatim>\<open>else\<close>. The arguments of \<^verbatim>\<open>log.error\<close> are evaluated before the
  call, so \<^verbatim>\<open>req.json()['errorMessage']\<close> can raise in the second branch. The body of the
  \<^verbatim>\<open>try\<close> gives \<open>None\<close> when it raises; the function then returns Python's \<^verbatim>\<open>None\<close>.
\<close>

definition add_series_request :: "sonarr \<Rightarrow> json \<Rightarrow> json \<Rightarrow> json \<Rightarrow> json \<Rightarrow> json \<Rightarrow> json \<Rightarrow> request" where
  "add_series_request self series_tvdbid series_title series_title_slug profile_id root_folder search_missing =
     \<lparr>meth = POST, url = urljoin (server_url self) ''api/series'',
      hdrs = sonarr_headers self, page = None,
      payload =
        JObj [(''addOptions'', JObj [(''ignoreEpisodesWithFiles'', JFalse),
                                     (''ignoreEpisodesWithoutFiles'', JFalse),
                                     (''searchForMissingEpisodes'', search_missing)]),
              (''images'', JArr []), (''monitored'', JTrue), (''qualityProfileId'', profile_id),
              (''rootFolderPath'', root_folder), (''seasonFolder'', JTrue), (''seasons'', JArr []),
              (''title'', series_title), (''titleSlug'', series_title_slug),
              (''tvdbId'', series_tvdbid)]\<rparr>"

definition add_series_try ::
  "net \<Rightarrow> sonarr \<Rightarrow> json \<Rightarrow> json \<Rightarrow> json \<Rightarrow> json \<Rightarrow> json \<Rightarrow> json \<Rightarrow> world \<Rightarrow> bool option \<times> world" where
  "add_series_try srv self series_tvdbid series_title series_title_slug profile_id root_folder search_missing w =
     (case http srv (add_series_request self series_tvdbid series_title series_title_slug
                       profile_id root_folder search_missing) w of
        (None, w1) \<Rightarrow> (None, w1)
      | (Some req, w1) \<Rightarrow>
          (case (if status_code req = 201
                 then do { j \<leftarrow> json_of req; v \<leftarrow> subscript j ''tvdbId''; Some (v = series_tvdbid) }
                 else Some False) of
             None \<Rightarrow> (None, w1)
           | Some True \<Rightarrow> (Some True, w1)
           | Some False \<Rightarrow>
               (if status_code req = 401 \<and> substring ''errorMessage'' (text_of req) then
                  (case do { j \<leftarrow> json_of req; subscript j ''errorMessage'' } of
                     None \<Rightarrow> (None, w1)
                   | Some msg \<Rightarrow> (Some False, w1))
                else (Some False, w1))))"

definition add_series ::
  "net \<Rightarrow> sonarr \<Rightarrow> json \<Rightarrow> json \<Rightarrow> json \<Rightarrow> json \<Rightarrow> json \<Rightarrow> json \<Rightarrow> world \<Rightarrow> bool option \<times> world" where
  "add_series srv self series_tvdbid series_title series_title_slug profile_id root_folder search_missing w =
     (case add_series_try srv self series_tvdbid series_title series_title_slug profile_id
             root_folder search_missing w of
        (None, w1) \<Rightarrow> (None, w1)
      | (Some b, w1) \<Rightarrow> (Some b, w1))"

section \<open>The Trakt client (media/trakt.py)\<close>

subsection \<open>More of Python\<close>

text \<open>\<^verbatim>\<open>a + b\<close> on decoded values: numbers add, strings and lists concatenate, anything
  else is a TypeError.\<close>

fun py_add :: "json \<Rightarrow> json \<Rightarrow> json option" where
  "py_add (JNum a) (JNum b) = Some (JNum (a + b))"
| "py_add (JStr a) (JStr b) = Some (JStr (a @ b))"
| "py_add (JArr a) (JArr b) = Some (JArr (a @ b))"
| "py_add _ _ = None"

text \<open>\<^verbatim>\<open>a < n\<close> for an integer \<open>n\<close>: a TypeError unless \<open>a\<close> is a number.\<close>

fun py_less_int :: "json \<Rightarrow> int \<Rightarrow> bool option" where
  "py_less_int (JNum a) n = Some (a < of_int n)"
| "py_less_int _ n = None"

text \<open>\<^verbatim>\<open>round(x)\<close>: to the nearest integer, a tie to the even one.\<close>

definition py_round :: "rat \<Rightarrow> int" where
  "py_round x =
     (let f = \<lfloor>x\<rfloor>; r = x - of_int f
      in if r < 1 / 2 then f else if 1 / 2 < r then f + 1 else if even f then f else f + 1)"

text \<open>\<^verbatim>\<open>'Bearer ' + t\<close>: a TypeError unless \<open>t\<close> is a string.\<close>

fun bearer :: "json \<Rightarrow> string option" where
  "bearer (JStr t) = Some (''Bearer '' @ t)"
| "bearer _ = None"

text \<open>A value used as a dict key must be hashable: lists and dicts are not.\<close>

fun hashable :: "json \<Rightarrow> bool" where
  "hashable (JArr xs) = False"
| "hashable (JObj kvs) = False"
| "hashable _ = True"

text \<open>
  A \<^verbatim>\<open>while\<close> loop. The body is a function of the loop's variables and the world that
  either leaves the loop with a value or goes round again; a loop that never leaves has
  no value (\<open>None\<close>).
\<close>

datatype ('s, 'r) step = Continue 's | Break 'r

partial_function (option) while_loop ::
  "('s \<Rightarrow> world \<Rightarrow> ('s, 'r) step \<times> world) \<Rightarrow> 's \<Rightarrow> world \<Rightarrow> ('r \<times> world) option" where
  "while_loop body s w =
     (case body s w of
        (Break r, w1) \<Rightarrow> Some (r, w1)
      | (Continue s1, w1) \<Rightarrow> while_loop body s1 w1)"

text \<open>The states in which a loop begins a round: the one it is started in, and each one
  that a round which goes round again leads to.\<close>

inductive rounds ::
  "('s \<Rightarrow> world \<Rightarrow> ('s, 'r) step \<times> world) \<Rightarrow> 's \<times> world \<Rightarrow> 's \<times> world \<Rightarrow> bool"
  for body :: "'s \<Rightarrow> world \<Rightarrow> ('s, 'r) step \<times> world" and sw :: "'s \<times> world" where
  first: "rounds body sw sw"
| again: "rounds body sw (s1, w1) \<Longrightarrow> body s1 w1 = (Continue s2, w2) \<Longrightarrow> rounds body sw (s2, w2)"

subsection \<open>The client object\<close>

record trakt =
  api_key :: string
  api_secret :: string
  headers :: ref

text \<open>\<^verbatim>\<open>Trakt.__init__\<close>: the header dict is a new object, at address \<open>a\<close>.\<close>

definition Trakt_init :: "ref \<Rightarrow> string \<Rightarrow> string \<Rightarrow> world \<Rightarrow> trakt \<times> world" where
  "Trakt_init a key secret w =
     (\<lparr>api_key = key, api_secret = secret, headers = a\<rparr>,
      w\<lparr>heap := (heap w)(a := [''Content-Type'' \<mapsto> ''application/json'',
                                ''trakt-api-version'' \<mapsto> ''2'',
                                ''trakt-api-key'' \<mapsto> key])\<rparr>)"

text \<open>\<^verbatim>\<open>Trakt.validate_api_key\<close>: the request it makes, and the function (an exception of
  \<^verbatim>\<open>requests.get\<close> is caught and gives \<^verbatim>\<open>False\<close>).\<close>

definition validate_request :: "trakt \<Rightarrow> world \<Rightarrow> request" where
  "validate_request self w =
     \<lparr>meth = GET, url = Url ''https://api.trakt.tv/shows/anticipated'',
      hdrs = heap w (headers self), page = None,
      payload = JObj [(''extended'', JStr ''full''), (''limit'', JNum 1000)]\<rparr>"

definition Trakt_validate_api_key :: "net \<Rightarrow> trakt \<Rightarrow> world \<Rightarrow> bool \<times> world" where
  "Trakt_validate_api_key srv self w =
     (case http srv (validate_request self w) w of
        (None, w1) \<Rightarrow> (False, w1)
      | (Some req, w1) \<Rightarrow> (if status_code req = 200 then (True, w1) else (False, w1)))"

subsection \<open>OAuth device authentication\<close>

definition device_code_request :: "trakt \<Rightarrow> world \<Rightarrow> request" where
  "device_code_request self w =
     \<lparr>meth = POST, url = Url ''https://api.trakt.tv/oauth/device/code'',
      hdrs = heap w (headers self), page = None,
      payload = JObj [(''client_id'', JStr (api_key self))]\<rparr>"

definition oauth_request_device_code :: "net \<Rightarrow> trakt \<Rightarrow> world \<Rightarrow> (py_error + json) \<times> world" where
  "oauth_request_device_code srv self w =
     (case http srv (device_code_request self w) w of
        (None, w1) \<Rightarrow> (Inl Exception, w1)
      | (Some req, w1) \<Rightarrow>
          (raising (do { device_code_response \<leftarrow> json_of req;
                         _ \<leftarrow> subscript device_code_response ''verification_url'';
                         _ \<leftarrow> subscript device_code_response ''user_code'';
                         _ \<leftarrow> subscript device_code_response ''interval'';
                         Some device_code_response }), w1))"

text \<open>
  \<^verbatim>\<open>__oauth_process_token_request\<close>. On status 200 the name \<^verbatim>\<open>temp_headers\<close> is bound to
  the object \<^verbatim>\<open>self.headers\<close>, so the assignment to \<^verbatim>\<open>temp_headers['Authorization']\<close>
  writes the client's own header dict; the variable \<^verbatim>\<open>req\<close> is then rebound to the
  response of \<^verbatim>\<open>/users/me\<close>, whose status code is the one returned. The configuration
  class is not part of these sources: \<^verbatim>\<open>Config().merge_settings\<close> is taken to record the
  token response under the user name and not to raise.
\<close>

definition users_me_request :: "dict \<Rightarrow> request" where
  "users_me_request hs =
     \<lparr>meth = GET, url = Url ''https://api.trakt.tv/users/me'', hdrs = hs, page = None,
      payload = JNull\<rparr>"

definition oauth_process_token_request ::
  "net \<Rightarrow> trakt \<Rightarrow> response \<Rightarrow> world \<Rightarrow> (py_error + bool \<times> int) \<times> world" where
  "oauth_process_token_request srv self req w =
     (if status_code req = 200 then
        (case do { access_token_response \<leftarrow> json_of req;
                   access_token \<leftarrow> subscript access_token_response ''access_token'';
                   b \<leftarrow> bearer access_token;
                   Some (access_token_response, b) } of
           None \<Rightarrow> (Inl Exception, w)
         | Some (access_token_response, b) \<Rightarrow>
             (let temp_headers = headers self;
                  w1 = w\<lparr>heap := (heap w)(temp_headers := (heap w temp_headers)(''Authorization'' \<mapsto> b))\<rparr>
              in case http srv (users_me_request (heap w1 temp_headers)) w1 of
                   (None, w2) \<Rightarrow> (Inl Exception, w2)
                 | (Some req2, w2) \<Rightarrow>
                     (case do { me \<leftarrow> json_of req2; subscript me ''username'' } of
                        None \<Rightarrow> (Inl Exception, w2)
                      | Some username \<Rightarrow>
                          (if hashable username then
                             (Inr (True, status_code req2),
                              w2\<lparr>stored := stored w2 @ [(username, access_token_response)]\<rparr>)
                           else (Inl Exception, w2)))))
      else (Inr (False, status_code req), w))"

text \<open>
  One round of the loop of \<^verbatim>\<open>__oauth_poll_for_access_token\<close>, the loop variable being
  \<^verbatim>\<open>polling_interval\<close>. The loop is left by its condition, by \<^verbatim>\<open>break\<close> or by an
  exception; after the loop the function returns \<^verbatim>\<open>False\<close>, on both ways out.
\<close>

definition token_request :: "trakt \<Rightarrow> json \<Rightarrow> world \<Rightarrow> request" where
  "token_request self device_code w =
     \<lparr>meth = POST, url = Url ''https://api.trakt.tv/oauth/device/token'',
      hdrs = heap w (headers self), page = None,
      payload = JObj [(''client_id'', JStr (api_key self)),
                      (''client_secret'', JStr (api_secret self)),
                      (''code'', device_code),
                      (''grant_type'', JStr ''authorization_code'')]\<rparr>"

definition oauth_poll_body ::
  "net \<Rightarrow> trakt \<Rightarrow> json \<Rightarrow> rat \<Rightarrow> rat \<Rightarrow> rat \<Rightarrow> world \<Rightarrow> (rat, py_error + bool) step \<times> world" where
  "oauth_poll_body srv self device_code polling_start polling_expire polling_interval w =
     (if clock w - polling_start < polling_expire then
        (case http srv (token_request self device_code w) w of
           (None, w1) \<Rightarrow> (Break (Inl Exception), w1)
         | (Some req, w1) \<Rightarrow>
             (case oauth_process_token_request srv self req w1 of
                (Inl e, w2) \<Rightarrow> (Break (Inl e), w2)
              | (Inr (success, status), w2) \<Rightarrow>
                  (if success then (Break (Inr False), w2)
                   else
                     (let polling_interval1 =
                            (if status = 426 then polling_interval + 1 else polling_interval)
                      in case sleep polling_interval1 w2 of
                           (None, w3) \<Rightarrow> (Break (Inl Exception), w3)
                         | (Some _, w3) \<Rightarrow> (Continue polling_interval1, w3)))))
      else (Break (Inr False), w))"

text \<open>\<^verbatim>\<open>time.sleep\<close> and the comparison with the elapsed time raise TypeError on a value
  that is not a number.\<close>

definition oauth_poll_for_access_token ::
  "net \<Rightarrow> trakt \<Rightarrow> json \<Rightarrow> json \<Rightarrow> json \<Rightarrow> world \<Rightarrow> ((py_error + bool) \<times> world) option" where
  "oauth_poll_for_access_token srv self device_code polling_interval polling_expire w =
     (let polling_start = clock w
      in case polling_interval of
           JNum i \<Rightarrow>
             (case sleep i w of
                (None, w1) \<Rightarrow> Some (Inl Exception, w1)
              | (Some _, w1) \<Rightarrow>
                  (case polling_expire of
                     JNum e \<Rightarrow> while_loop (oauth_poll_body srv self device_code polling_start e) i w1
                   | _ \<Rightarrow> Some (Inl Exception, w1)))
         | _ \<Rightarrow> Some (Inl Exception, w))"

definition refresh_request :: "trakt \<Rightarrow> json \<Rightarrow> world \<Rightarrow> request" where
  "refresh_request self refresh_token w =
     \<lparr>meth = POST, url = Url ''https://api.trakt.tv/oauth/token'',
      hdrs = heap w (headers self), page = None,
      payload = JObj [(''client_id'', JStr (api_key self)),
                      (''client_secret'', JStr (api_secret self)),
                      (''grant_type'', JStr ''refresh_token''),
                      (''refresh_token'', refresh_token)]\<rparr>"

definition oauth_refresh_access_token ::
  "net \<Rightarrow> trakt \<Rightarrow> json \<Rightarrow> world \<Rightarrow> (py_error + bool) \<times> world" where
  "oauth_refresh_access_token srv self refresh_token w =
     (case http srv (refresh_request self refresh_token w) w of
        (None, w1) \<Rightarrow> (Inl Exception, w1)
      | (Some req, w1) \<Rightarrow>
          (case oauth_process_token_request srv self req w1 of
             (Inl e, w2) \<Rightarrow> (Inl e, w2)
           | (Inr (success, status), w2) \<Rightarrow> (Inr success, w2)))"

text \<open>\<^verbatim>\<open>oauth_authentication\<close>: \<^verbatim>\<open>True\<close> when the poll returns a true value, \<^verbatim>\<open>False\<close> when
  it does not or when anything in the \<^verbatim>\<open>try\<close> raises.\<close>

definition oauth_authentication :: "net \<Rightarrow> trakt \<Rightarrow> world \<Rightarrow> ((py_error + bool) \<times> world) option" where
  "oauth_authentication srv self w =
     (case oauth_request_device_code srv self w of
        (Inl e, w1) \<Rightarrow> Some (except_Exception (Inl e) False, w1)
      | (Inr device_code_response, w1) \<Rightarrow>
          (case do { d \<leftarrow> subscript device_code_response ''device_code'';
                     i \<leftarrow> subscript device_code_response ''interval'';
                     e \<leftarrow> subscript device_code_response ''expires_in'';
                     Some (d, i, e) } of
             None \<Rightarrow> Some (Inr False, w1)
           | Some (d, i, e) \<Rightarrow>
               (case oauth_poll_for_access_token srv self d i e w1 of
                  None \<Rightarrow> None
                | Some (Inl e, w2) \<Rightarrow> Some (except_Exception (Inl e) False, w2)
                | Some (Inr polled, w2) \<Rightarrow> Some (Inr (if polled then True else False), w2))))"

text \<open>
  \<^verbatim>\<open>oauth_headers\<close>. The name \<^verbatim>\<open>headers\<close> is bound to the object \<^verbatim>\<open>self.headers\<close>, the
  \<^verbatim>\<open>Authorization\<close> entry is written into that object, and its address is what is
  returned. The token information is read before the refresh and used after it.
  \<open>first_user\<close> is the branch taken when \<^verbatim>\<open>user\<close> is \<^verbatim>\<open>None\<close> or not a key of
  \<^verbatim>\<open>self.cfg['trakt']\<close>: \<^verbatim>\<open>users.pop\<close> removes the two key entries from that dict itself,
  and \<^verbatim>\<open>list(users.keys())[0]\<close> is an IndexError when nothing is left.
\<close>

definition first_user :: "world \<Rightarrow> string option \<times> world" where
  "first_user w =
     (let users = filter (\<lambda>(k, v). k \<noteq> ''api_secret'')
                    (filter (\<lambda>(k, v). k \<noteq> ''api_key'') (cfg_trakt w));
          w0 = w\<lparr>cfg_trakt := users\<rparr>
      in case users of
           [] \<Rightarrow> (None, w0)
         | (k, v) # rest \<Rightarrow> (Some k, w0))"

definition oauth_headers :: "net \<Rightarrow> trakt \<Rightarrow> string option \<Rightarrow> world \<Rightarrow> (py_error + ref) \<times> world" where
  "oauth_headers srv self user w =
     (let hs = headers self
      in case (case user of
                 None \<Rightarrow> first_user w
               | Some u \<Rightarrow> (if u \<notin> fst ` set (cfg_trakt w) then first_user w else (Some u, w))) of
        (None, w0) \<Rightarrow> (Inl Exception, w0)
      | (Some user1, w0) \<Rightarrow>
          (case map_of (cfg_trakt w0) user1 of
             None \<Rightarrow> (Inl Exception, w0)
           | Some token_information \<Rightarrow>
               (case do { c \<leftarrow> subscript token_information ''created_at'';
                          e \<leftarrow> subscript token_information ''expires_in'';
                          expires_at \<leftarrow> py_add c e;
                          py_less_int expires_at (py_round (clock w0)) } of
                  None \<Rightarrow> (Inl Exception, w0)
                | Some expired \<Rightarrow>
                    (case (if expired then
                             (case subscript token_information ''refresh_token'' of
                                None \<Rightarrow> (Inl Exception, w0)
                              | Some refresh_token \<Rightarrow>
                                  oauth_refresh_access_token srv self refresh_token w0)
                           else (Inr False, w0)) of
                       (Inl e, w1) \<Rightarrow> (Inl e, w1)
                     | (Inr refreshed, w1) \<Rightarrow>
                         (case do { t \<leftarrow> subscript token_information ''access_token''; bearer t } of
                            None \<Rightarrow> (Inl Exception, w1)
                          | Some b \<Rightarrow>
                              (Inr hs,
                               w1\<lparr>heap := (heap w1)(hs := (heap w1 hs)(''Authorization'' \<mapsto> b))\<rparr>))))))"

subsection \<open>The paginated lists\<close>

text \<open>
  The twelve list methods are one loop, written out twelve times. They differ in
  \<^item> the address (for the two user-list methods it is built by concatenation with
    \<^verbatim>\<open>user\<close>, a TypeError when \<^verbatim>\<open>user\<close> is \<^verbatim>\<open>None\<close>);
  \<^item> the headers: \<^verbatim>\<open>self.headers\<close> for the public lists, \<^verbatim>\<open>self.oauth_headers(user)\<close> for
    the four lists of a user, which also have the branch for status 401;
  \<^item> what is appended: the record, or for the two \<^verbatim>\<open>popular\<close> methods the record wrapped
    as \<^verbatim>\<open>{'show': record}\<close> / \<^verbatim>\<open>{'movie': record}\<close>.
\<close>

record endpoint =
  address_of :: "string option"
  user_of :: "string option option"
  category :: "string option"

text \<open>The \<^verbatim>\<open>for\<close> loop over the records of one page.\<close>

fun add_items :: "string option \<Rightarrow> json list \<Rightarrow> json list \<Rightarrow> json list" where
  "add_items cat [] processed = processed"
| "add_items cat (item # rest) processed =
     add_items cat rest
       (if item \<notin> set processed
        then processed @ [case cat of None \<Rightarrow> item | Some c \<Rightarrow> JObj [(c, item)]]
        else processed)"

text \<open>
  One round of \<^verbatim>\<open>while True:\<close>, the loop variables being \<^verbatim>\<open>payload['page']\<close> and the list
  of processed records. The arguments of \<^verbatim>\<open>requests.get\<close> are evaluated in order, and
  so are those of \<^verbatim>\<open>log.debug("Response Page: ...")\<close>, among them
  \<^verbatim>\<open>int(req.headers['X-Pagination-Page-Count'])\<close>, before the status code is looked at.
\<close>

definition page_request :: "string \<Rightarrow> dict \<Rightarrow> int \<Rightarrow> request" where
  "page_request a hs pg = \<lparr>meth = GET, url = Url a, hdrs = hs, page = Some pg, payload = JNull\<rparr>"

text \<open>The page requests among the entries of a log, by their page numbers: the other
  requests (for a token, for the user name) carry no page.\<close>

definition pages_of :: "(rat \<times> request) list \<Rightarrow> int list" where
  "pages_of qs = concat (map (\<lambda>(t, q). case page q of None \<Rightarrow> [] | Some pg \<Rightarrow> [pg]) qs)"

text \<open>The \<^verbatim>\<open>headers=\<close> argument: \<^verbatim>\<open>self.headers\<close>, or \<^verbatim>\<open>self.oauth_headers(user)\<close>.\<close>

definition request_headers :: "net \<Rightarrow> trakt \<Rightarrow> endpoint \<Rightarrow> world \<Rightarrow> (py_error + ref) \<times> world" where
  "request_headers srv self ep w =
     (case user_of ep of
        None \<Rightarrow> (Inr (headers self), w)
      | Some user \<Rightarrow> oauth_headers srv self user w)"

definition page_body ::
  "net \<Rightarrow> trakt \<Rightarrow> endpoint \<Rightarrow> int \<times> json list \<Rightarrow> world
     \<Rightarrow> (int \<times> json list, py_error + json list) step \<times> world" where
  "page_body srv self ep s w =
     (case s of (pg, processed) \<Rightarrow>
      (case address_of ep of
         None \<Rightarrow> (Break (Inl Exception), w)
       | Some a \<Rightarrow>
           (case request_headers srv self ep w of
              (Inl e, w1) \<Rightarrow> (Break (Inl e), w1)
            | (Inr hs, w1) \<Rightarrow>
                (case http srv (page_request a (heap w1 hs) pg) w1 of
                   (None, w2) \<Rightarrow> (Break (Inl Exception), w2)
                 | (Some req, w2) \<Rightarrow>
                     (if page_count req = NotAnInt then (Break (Inl Exception), w2)
                      else if status_code req = 200 then
                        (case items_of req of
                           None \<Rightarrow> (Break (Inl Exception), w2)
                         | Some resp_json \<Rightarrow>
                             (let processed1 = add_items (category ep) resp_json processed
                              in case page_count req of
                                   Count n \<Rightarrow>
                                     (if n = 0 then (Break (Inr processed1), w2)
                                      else if n \<le> pg then (Break (Inr processed1), w2)
                                      else (case sleep 5 w2 of
                                              (None, w3) \<Rightarrow> (Break (Inl Exception), w3)
                                            | (Some _, w3) \<Rightarrow> (Continue (pg + 1, processed1), w3)))
                                 | _ \<Rightarrow> (Break (Inr processed1), w2)))
                      else if user_of ep \<noteq> None \<and> status_code req = 401 then
                        (Break (Inl SystemExit), w2)
                      else (Break (Inr processed), w2))))))"

text \<open>
  A list method without its decorator: the loop from page 1 with nothing processed, then
  the list if it is not empty and \<^verbatim>\<open>None\<close> otherwise; \<^verbatim>\<open>except Exception\<close> turns an
  exception into \<^verbatim>\<open>None\<close> and lets \<^verbatim>\<open>SystemExit\<close> through.
\<close>

definition fetch ::
  "net \<Rightarrow> trakt \<Rightarrow> endpoint \<Rightarrow> world \<Rightarrow> ((py_error + json list option) \<times> world) option" where
  "fetch srv self ep w =
     (case while_loop (page_body srv self ep) (1, []) w of
        None \<Rightarrow> None
      | Some (Inl e, w1) \<Rightarrow> Some (except_Exception (Inl e) None, w1)
      | Some (Inr processed, w1) \<Rightarrow>
          Some (Inr (if length processed \<noteq> 0 then Some processed else None), w1))"

definition public_list :: "string \<Rightarrow> string option \<Rightarrow> endpoint" where
  "public_list a cat = \<lparr>address_of = Some a, user_of = None, category = cat\<rparr>"

definition user_list :: "string option \<Rightarrow> string option \<Rightarrow> endpoint" where
  "user_list a user = \<lparr>address_of = a, user_of = Some user, category = None\<rparr>"

definition get_anticipated_shows where
  "get_anticipated_shows srv self =
     fetch srv self (public_list ''https://api.trakt.tv/shows/anticipated'' None)"

definition get_watchlist_shows where
  "get_watchlist_shows srv self user =
     fetch srv self (user_list (Some ''https://api.trakt.tv/sync/watchlist/shows'') user)"

definition get_user_list_shows where
  "get_user_list_shows srv self list_id user =
     fetch srv self
       (user_list (case user of
                     None \<Rightarrow> None
                   | Some u \<Rightarrow>
                       Some (''https://api.trakt.tv/users/'' @ u @ ''/lists/'' @ list_id @ ''/items/shows''))
          user)"

definition get_trending_shows where
  "get_trending_shows srv self =
     fetch srv self (public_list ''https://api.trakt.tv/shows/trending'' None)"

definition get_popular_shows where
  "get_popular_shows srv self =
     fetch srv self (public_list ''https://api.trakt.tv/shows/popular'' (Some ''show''))"

definition get_anticipated_movies where
  "get_anticipated_movies srv self =
     fetch srv self (public_list ''https://api.trakt.tv/movies/anticipated'' None)"

definition get_trending_movies where
  "get_trending_movies srv self =
     fetch srv self (public_list ''https://api.trakt.tv/movies/trending'' None)"

definition get_popular_movies where
  "get_popular_movies srv self =
     fetch srv self (public_list ''https://api.trakt.tv/movies/popular'' (Some ''movie''))"

definition get_boxoffice_movies where
  "get_boxoffice_movies srv self =
     fetch srv self (public_list ''https://api.trakt.tv/movies/boxoffice'' None)"

definition get_watchlist_movies where
  "get_watchlist_movies srv self user =
     fetch srv self (user_list (Some ''https://api.trakt.tv/sync/watchlist/movies'') user)"

definition get_user_list_movies where
  "get_user_list_movies srv self list_id user =
     fetch srv self
       (user_list (case user of
                     None \<Rightarrow> None
                   | Some u \<Rightarrow>
                       Some (''https://api.trakt.tv/users/'' @ u @ ''/lists/'' @ list_id @ ''/items/movies''))
          user)"

section \<open>The retry decorator\<close>

text \<open>What the decorator is applied to: a method that, when it ends, returns a value or
  \<^verbatim>\<open>None\<close>, or lets an exception through.\<close>

type_synonym 'a operation = "world \<Rightarrow> ((py_error + 'a option) \<times> world) option"

text \<open>
  Modelled from the spec: the wait of the retry policy. The decorator
  \<^verbatim>\<open>@backoff.on_predicate(backoff.expo, lambda x: x is None, max_tries=4, on_backoff=backoff_handler)\<close>
  is applied in these sources, but \<^verbatim>\<open>on_predicate\<close> and \<^verbatim>\<open>expo\<close> belong to the package
  \<^verbatim>\<open>backoff\<close>, which is not part of them. By the spec (4.1) the wait after attempt \<open>k\<close>
  (counted from 0) is \<open>base * 2 ^ k\<close> seconds.
\<close>

definition backoff_wait :: "rat \<Rightarrow> nat \<Rightarrow> world \<Rightarrow> world" where
  "backoff_wait base k w = snd (sleep (base * 2 ^ k) w)"

text \<open>
  Modelled from the spec: the attempts of the retry policy (\<^verbatim>\<open>backoff.on_predicate\<close>, missing
  as said above). The operation is attempted; when attempt \<open>k\<close> returns \<^verbatim>\<open>None\<close> and
  attempts are left, the policy waits and attempts again; when none is left it returns
  \<^verbatim>\<open>None\<close> to the caller. A value other than \<^verbatim>\<open>None\<close> is returned at once, and an exception
  that leaves the operation leaves the decorator. The result also carries the number of
  attempts made.
\<close>

primrec attempts ::
  "rat \<Rightarrow> 'a operation \<Rightarrow> nat \<Rightarrow> nat \<Rightarrow> world \<Rightarrow> ((py_error + 'a option) \<times> nat \<times> world) option" where
  "attempts base f 0 k w =
     (case f w of
        None \<Rightarrow> None
      | Some (r, w1) \<Rightarrow> Some (r, k + 1, w1))"
| "attempts base f (Suc left) k w =
     (case f w of
        None \<Rightarrow> None
      | Some (Inr None, w1) \<Rightarrow> attempts base f left (k + 1) (backoff_wait base k w1)
      | Some (r, w1) \<Rightarrow> Some (r, k + 1, w1))"

text \<open>
  Modelled from the spec: the decorator (\<^verbatim>\<open>backoff.on_predicate\<close> with \<^verbatim>\<open>max_tries\<close>, missing as
  said above): at most \<open>max_tries\<close> attempts, the first being attempt 0.
\<close>

definition on_predicate ::
  "rat \<Rightarrow> nat \<Rightarrow> 'a operation \<Rightarrow> world \<Rightarrow> ((py_error + 'a option) \<times> nat \<times> world) option" where
  "on_predicate base max_tries f w = attempts base f (max_tries - 1) 0 w"

text \<open>A method that always returns, seen as an operation.\<close>

definition returning :: "(world \<Rightarrow> 'a option \<times> world) \<Rightarrow> 'a operation" where
  "returning f w = (case f w of (r, w1) \<Rightarrow> Some (Inr r, w1))"

text \<open>
  \<^verbatim>\<open>Sonarr.add_series\<close> as the callers have it, with its decorator
  \<^verbatim>\<open>@backoff.on_predicate(backoff.expo, lambda x: x is None, max_tries=4, on_backoff=backoff_handler)\<close>;
  \<open>base\<close> is the unit of the waits. The result carries the number of attempts made.
\<close>

definition add_series_decorated ::
  "rat \<Rightarrow> net \<Rightarrow> sonarr \<Rightarrow> json \<Rightarrow> json \<Rightarrow> json \<Rightarrow> json \<Rightarrow> json \<Rightarrow> json \<Rightarrow> world
     \<Rightarrow> ((py_error + bool option) \<times> nat \<times> world) option" where
  "add_series_decorated base srv self series_tvdbid series_title series_title_slug profile_id
       root_folder search_missing =
     on_predicate base 4
       (returning (add_series srv self series_tvdbid series_title series_title_slug profile_id
                     root_folder search_missing))"

section \<open>Concrete inputs\<close>

text \<open>A network that gives the same response to every request at once, and one on
  which every request fails.\<close>

definition answering :: "response \<Rightarrow> net" where
  "answering r k q = (0, Some r)"

definition unreachable :: net where
  "unreachable k q = (0, None)"

text \<open>A response with the given status code, no page count and the empty object as
  its body.\<close>

definition plain_response :: "int \<Rightarrow> response" where
  "plain_response c =
     \<lparr>status_code = c, page_count = Absent, text_of = ''{}'', json_of = Some (JObj []),
      items_of = Some []\<rparr>"

definition world0 :: world where
  "world0 =
     \<lparr>clock = 0, heap = (\<lambda>a. Map.empty), sent = [], slept = [], cfg_trakt = [], stored = []\<rparr>"

definition sonarr0 :: sonarr where
  "sonarr0 = Sonarr_init ''http://localhost:8989/'' ''key''"

definition trakt0 :: trakt where
  "trakt0 = fst (Trakt_init 0 ''key'' ''secret'' world0)"

definition world1 :: world where
  "world1 = snd (Trakt_init 0 ''key'' ''secret'' world0)"

text \<open>A 200 response that is the only page: the given records, no page count.\<close>

definition single_page :: "json list \<Rightarrow> response" where
  "single_page xs =
     \<lparr>status_code = 200, page_count = Absent, text_of = '''', json_of = Some (JArr xs),
      items_of = Some xs\<rparr>"

text \<open>A network that answers the \<open>k\<close>-th request with the \<open>k\<close>-th response of a list, at
  once, and fails when the list is used up.\<close>

definition scripted :: "response list \<Rightarrow> net" where
  "scripted rs k q = (0, if k < length rs then Some (rs ! k) else None)"

text \<open>A response with a status code and a decoded body that is not a list of records.\<close>

definition json_response :: "int \<Rightarrow> json \<Rightarrow> response" where
  "json_response c j =
     \<lparr>status_code = c, page_count = Absent, text_of = '''', json_of = Some j, items_of = None\<rparr>"

text \<open>A run of the device flow: the device code, then the polls answered 429, 426 and
  200, then the answer of \<^verbatim>\<open>/users/me\<close>.\<close>

definition device_code_body :: json where
  "device_code_body =
     JObj [(''device_code'', JStr ''d3v1c3''), (''expires_in'', JNum 600), (''interval'', JNum 5),
           (''user_code'', JStr ''5055CC52''), (''verification_url'', JStr ''https://trakt.tv/activate'')]"

definition token_body :: json where
  "token_body =
     JObj [(''access_token'', JStr ''t0k3n''), (''created_at'', JNum 1487889741),
           (''expires_in'', JNum 7200), (''refresh_token'', JStr ''r3fr3sh'')]"

definition device_flow_script :: net where
  "device_flow_script =
     scripted [json_response 200 device_code_body, plain_response 429, plain_response 426,
               json_response 200 token_body,
               json_response 200 (JObj [(''username'', JStr ''alice'')])]"

definition dark :: json where
  "dark = JObj [(''title'', JStr ''Dark'')]"

text \<open>A network on which the operator never answers: the device code is handed out and
  every other request is answered 429.\<close>

definition never_authorized :: net where
  "never_authorized k q =
     (0, Some (if url q = Url ''https://api.trakt.tv/oauth/device/code''
               then json_response 200 device_code_body else plain_response 429))"

text \<open>The client with the configuration of one authenticated user.\<close>

definition world2 :: world where
  "world2 =
     world1\<lparr>cfg_trakt := [(''api_key'', JStr ''key''), (''api_secret'', JStr ''secret''),
                           (''alice'', token_body)]\<rparr>"

text \<open>A 200 response with the given page count and records.\<close>

definition counted_page :: "int \<Rightarrow> json list \<Rightarrow> response" where
  "counted_page n xs =
     \<lparr>status_code = 200, page_count = Count n, text_of = [], json_of = Some (JArr xs),
      items_of = Some xs\<rparr>"

text \<open>The watchlist of the user of \<open>world2\<close>, and the world after the first round of its
  loop on pages that carry the page count 2.\<close>

definition watchlist :: endpoint where
  "watchlist = user_list (Some ''https://api.trakt.tv/sync/watchlist/shows'') (Some ''alice'')"

definition world3 :: world where
  "world3 = snd (page_body (answering (counted_page 2 [dark])) trakt0 watchlist (1, []) world2)"

text \<open>A 200 response with the given page count whose body does not decode, and a 401
  response whose page-count header is not a number.\<close>

definition broken_page :: "int \<Rightarrow> response" where
  "broken_page n =
     \<lparr>status_code = 200, page_count = Count n, text_of = ''<html>'', json_of = None,
      items_of = None\<rparr>"

definition odd_401 :: response where
  "odd_401 =
     \<lparr>status_code = 401, page_count = NotAnInt, text_of = [], json_of = None, items_of = None\<rparr>"

text \<open>The client with a configuration that names no user.\<close>

definition world4 :: world where
  "world4 = world1\<lparr>cfg_trakt := [(''api_key'', JStr ''key''), (''api_secret'', JStr ''secret'')]\<rparr>"

text \<open>The client of \<open>world2\<close> at a time when the token of its user has expired, and a
  network that answers a token request with a token, \<^verbatim>\<open>/users/me\<close> with the user name and
  every other request with the given response.\<close>

definition world5 :: world where
  "world5 = world2\<lparr>clock := 1487900000\<rparr>"

definition alice_body :: json where
  "alice_body = JObj [(''username'', JStr ''alice'')]"

definition refreshing :: "response \<Rightarrow> net" where
  "refreshing r k q =
     (0, Some (if url q = Url ''https://api.trakt.tv/oauth/token'' then json_response 200 token_body
               else if url q = Url ''https://api.trakt.tv/users/me'' then json_response 200 alice_body
               else r))"

section \<open>Properties\<close>

subsection \<open>Loops\<close>

text \<open>An invariant of the loop variables and the world holds when the loop is left; a
  measure that decreases on every round makes the loop return.\<close>

lemma while_loop_invariant:
  assumes run: "while_loop body s w = Some (r, w')"
    and init: "I s w"
    and step: "\<And>s w s1 w1. I s w \<Longrightarrow> body s w = (Continue s1, w1) \<Longrightarrow> I s1 w1"
    and exit: "\<And>s w r w1. I s w \<Longrightarrow> body s w = (Break r, w1) \<Longrightarrow> Q r w1"
  shows "Q r w'"
proof -
  have "b = body \<longrightarrow> I s w \<longrightarrow> Q (fst y) (snd y)" if "while_loop b s w = Some y" for b y
  proof (rule while_loop.raw_induct
      [where P = "\<lambda>b s w y. b = body \<longrightarrow> I s w \<longrightarrow> Q (fst y) (snd y)", OF _ that], goal_cases)
    case (1 loop b s w y)
    show ?case
    proof (intro impI)
      assume b: "b = body" and i: "I s w"
      obtain st w1 where bw: "body s w = (st, w1)" by (cases "body s w")
      show "Q (fst y) (snd y)"
      proof (cases st)
        case (Continue s1)
        with 1(2) b bw have "loop body s1 w1 = Some y" by simp
        moreover have "I s1 w1" using step [OF i] bw Continue by simp
        ultimately show ?thesis using 1(1) b by blast
      next
        case (Break r)
        with 1(2) b bw have "y = (r, w1)" by simp
        then show ?thesis using exit [OF i] bw Break by simp
      qed
    qed
  qed
  from this [OF run] init show ?thesis by simp
qed

lemma while_loop_terminates:
  fixes m :: "'s \<Rightarrow> world \<Rightarrow> nat"
  assumes init: "I s w"
    and step: "\<And>s w s1 w1. I s w \<Longrightarrow> body s w = (Continue s1, w1) \<Longrightarrow> I s1 w1 \<and> m s1 w1 < m s w"
  shows "\<exists>y. while_loop body s w = Some y"
  using init
proof (induction "m s w" arbitrary: s w rule: less_induct)
  case less
  obtain st w1 where bw: "body s w = (st, w1)" by (cases "body s w")
  show ?case
  proof (cases st)
    case (Continue s1)
    from step [OF less.prems] bw Continue have "I s1 w1" "m s1 w1 < m s w" by simp_all
    from less.hyps [OF this(2) this(1)] obtain y where "while_loop body s1 w1 = Some y" ..
    then show ?thesis using bw Continue by (subst while_loop.simps) simp
  next
    case (Break r)
    then show ?thesis using bw by (subst while_loop.simps) simp
  qed
qed


subsection \<open>The outcomes of \<open>add_series\<close>\<close>

lemma add_series_cases:
  "fst (add_series srv self tv ti sl pr rf sm w) =
     (case snd (srv (length (sent w)) (add_series_request self tv ti sl pr rf sm)) of
        None \<Rightarrow> None
      | Some req \<Rightarrow>
          (if status_code req = 201 then
             (case do { j \<leftarrow> json_of req; subscript j ''tvdbId'' } of
                None \<Rightarrow> None
              | Some v \<Rightarrow> Some (v = tv))
           else if status_code req = 401 \<and> substring ''errorMessage'' (text_of req) then
             (case do { j \<leftarrow> json_of req; subscript j ''errorMessage'' } of
                None \<Rightarrow> None
              | Some m \<Rightarrow> Some False)
           else Some False))"
  by (auto simp: add_series_def add_series_try_def http_def
      split: prod.splits option.splits bool.splits bind_splits)

lemma add_series_True: "(fst (add_series srv self tv ti sl pr rf sm w) = Some True) =
          (\<exists>req. snd (srv (length (sent w)) (add_series_request self tv ti sl pr rf sm)) = Some req \<and> status_code req = 201 \<and> do { j \<leftarrow> json_of req; subscript j ''tvdbId'' } = Some tv)"
  unfolding add_series_cases by (auto split: option.splits)

lemma add_series_None: "(fst (add_series srv self tv ti sl pr rf sm w) = None) =
          (snd (srv (length (sent w)) (add_series_request self tv ti sl pr rf sm)) = None \<or>
           (\<exists>req. snd (srv (length (sent w)) (add_series_request self tv ti sl pr rf sm)) = Some req \<and>
              (status_code req = 201 \<and> do { j \<leftarrow> json_of req; subscript j ''tvdbId'' } = None \<or>
               status_code req = 401 \<and> substring ''errorMessage'' (text_of req) \<and>
                 do { j \<leftarrow> json_of req; subscript j ''errorMessage'' } = None)))"
  unfolding add_series_cases by (auto split: option.splits)

lemma add_series_False: "(fst (add_series srv self tv ti sl pr rf sm w) = Some False) =
          (\<exists>req. snd (srv (length (sent w)) (add_series_request self tv ti sl pr rf sm)) = Some req \<and>
             (if status_code req = 201 then (\<exists>v. do { j \<leftarrow> json_of req; subscript j ''tvdbId'' } = Some v \<and> v \<noteq> tv)
              else if status_code req = 401 \<and> substring ''errorMessage'' (text_of req)
                   then (\<exists>m. do { j \<leftarrow> json_of req; subscript j ''errorMessage'' } = Some m)
              else True))"
  unfolding add_series_cases by (auto split: option.splits)

text \<open>The decorated method: a result other than \<^verbatim>\<open>None\<close> is returned after the one
  attempt; after \<^verbatim>\<open>None\<close> the method is attempted again, four times at most.\<close>

lemma attempts_returning:
  "\<exists>r n w2. attempts base (returning g) left k w = Some (r, n, w2) \<and> k < n \<and> n \<le> k + left + 1"
proof (induction left arbitrary: k w)
  case 0
  obtain b w1 where "returning g w = Some (Inr b, w1)"
    by (cases "g w") (simp add: returning_def)
  then show ?case by simp
next
  case (Suc left)
  obtain b w1 where g: "returning g w = Some (Inr b, w1)"
    by (cases "g w") (simp add: returning_def)
  show ?case
  proof (cases b)
    case None
    from Suc [of "k + 1" "backoff_wait base k w1"] obtain r n w2 where
      "attempts base (returning g) left (k + 1) (backoff_wait base k w1) = Some (r, n, w2)"
      "k + 1 < n" "n \<le> k + 1 + left + 1" by blast
    with g None show ?thesis by simp
  next
    case (Some v)
    with g show ?thesis by simp
  qed
qed

lemma on_predicate_returned:
  assumes "fst (g w) \<noteq> None"
  shows "on_predicate base 4 (returning g) w = Some (Inr (fst (g w)), 1, snd (g w))"
proof -
  obtain v w1 where "g w = (Some v, w1)" using assms by (cases "g w") auto
  then have "returning g w = Some (Inr (Some v), w1)" "fst (g w) = Some v" "snd (g w) = w1"
    by (simp_all add: returning_def)
  then show ?thesis by (simp add: on_predicate_def eval_nat_numeral)
qed

lemma on_predicate_retried:
  assumes "fst (g w) = None"
  shows "\<exists>r n w2. on_predicate base 4 (returning g) w = Some (r, n, w2) \<and> 2 \<le> n \<and> n \<le> 4"
proof -
  obtain w1 where "g w = (None, w1)" using assms by (cases "g w") auto
  then have g: "returning g w = Some (Inr None, w1)" by (simp add: returning_def)
  from attempts_returning [of base g 2 1 "backoff_wait base 0 w1"] obtain r n w2 where
    "attempts base (returning g) 2 1 (backoff_wait base 0 w1) = Some (r, n, w2)" "1 < n" "n \<le> 4"
    by auto
  with g show ?thesis
    by (simp add: on_predicate_def eval_nat_numeral)
qed

lemma add_series_retry:
  "(fst (add_series srv self tv ti sl pr rf sm w) \<noteq> None \<longrightarrow>
      add_series_decorated base srv self tv ti sl pr rf sm w =
        Some (Inr (fst (add_series srv self tv ti sl pr rf sm w)), 1,
              snd (add_series srv self tv ti sl pr rf sm w)))
   \<and> (fst (add_series srv self tv ti sl pr rf sm w) = None \<longrightarrow>
      (\<exists>r n w2. add_series_decorated base srv self tv ti sl pr rf sm w = Some (r, n, w2) \<and>
                 2 \<le> n \<and> n \<le> 4))"
  unfolding add_series_decorated_def
  using on_predicate_returned [of "add_series srv self tv ti sl pr rf sm" w base]
    on_predicate_retried [of "add_series srv self tv ti sl pr rf sm" w base]
  by blast

text \<open>
  C5, as the claim states it, fails: a response that is neither the success nor the
  401 rejection is not a transient failure. With status 500 the method takes its
  \<^verbatim>\<open>else\<close> branch and returns \<^verbatim>\<open>False\<close>, which the retry predicate \<^verbatim>\<open>x is None\<close> does not
  select: the decorated method returns \<^verbatim>\<open>False\<close> after one attempt.
\<close>

theorem add_series_unexpected_status_counterexample:
  "fst (add_series (answering (plain_response 500)) sonarr0 (JNum 42) (JStr ''Title'')
          (JStr ''title'') (JNum 1) (JStr ''/tv'') JFalse world0) = Some False
   \<and> map_option fst
         (add_series_decorated 1 (answering (plain_response 500)) sonarr0 (JNum 42) (JStr ''Title'')
            (JStr ''title'') (JNum 1) (JStr ''/tv'') JFalse world0)
       = Some (Inr (Some False))
   \<and> map_option (fst \<circ> snd)
         (add_series_decorated 1 (answering (plain_response 500)) sonarr0 (JNum 42) (JStr ''Title'')
            (JStr ''title'') (JNum 1) (JStr ''/tv'') JFalse world0)
       = Some 1"
  by (simp add: add_series_decorated_def on_predicate_returned add_series_def add_series_try_def
      http_def answering_def plain_response_def world0_def)

text \<open>
  C5, amended. \<open>add_series\<close> has three outcomes, decided by the answer to its one request:
  \<^item> \<^verbatim>\<open>True\<close> exactly when a response arrives with status 201 whose decoded body has a
    \<^verbatim>\<open>tvdbId\<close> equal to the requested one;
  \<^item> \<^verbatim>\<open>None\<close>, the value the retry predicate selects, exactly when an exception is
    raised: the request fails, or the status is 201 and \<^verbatim>\<open>req.json()['tvdbId']\<close> raises,
    or the status is 401, the text contains \<^verbatim>\<open>errorMessage\<close> and
    \<^verbatim>\<open>req.json()['errorMessage']\<close> raises;
  \<^item> \<^verbatim>\<open>False\<close> for every other response: the 401 rejection whose error message can be
    read, and also any other status or a 201 with another \<^verbatim>\<open>tvdbId\<close>.

  Under its decorator the method is not retried after \<^verbatim>\<open>True\<close> or \<^verbatim>\<open>False\<close>: the caller has
  this result after one attempt, in the world that this attempt leaves. After \<^verbatim>\<open>None\<close> it
  is retried: the decorated method returns after at least two and at most four attempts.
\<close>

theorem add_series_outcomes:
  "(let answer = snd (srv (length (sent w)) (add_series_request self tv ti sl pr rf sm));
        result = fst (add_series srv self tv ti sl pr rf sm w);
        decorated = add_series_decorated base srv self tv ti sl pr rf sm w;
        id_of = (\<lambda>req. do { j \<leftarrow> json_of req; subscript j ''tvdbId'' });
        message_of = (\<lambda>req. do { j \<leftarrow> json_of req; subscript j ''errorMessage'' })
    in ((result = Some True) =
          (\<exists>req. answer = Some req \<and> status_code req = 201 \<and> id_of req = Some tv))
     \<and> ((result = None) =
          (answer = None \<or>
           (\<exists>req. answer = Some req \<and>
              (status_code req = 201 \<and> id_of req = None \<or>
               status_code req = 401 \<and> substring ''errorMessage'' (text_of req) \<and>
                 message_of req = None))))
     \<and> ((result = Some False) =
          (\<exists>req. answer = Some req \<and>
             (if status_code req = 201 then (\<exists>v. id_of req = Some v \<and> v \<noteq> tv)
              else if status_code req = 401 \<and> substring ''errorMessage'' (text_of req)
                   then (\<exists>m. message_of req = Some m)
              else True)))
     \<and> (result \<noteq> None \<longrightarrow>
          decorated = Some (Inr result, 1, snd (add_series srv self tv ti sl pr rf sm w)))
     \<and> (result = None \<longrightarrow>
          (\<exists>r n w2. decorated = Some (r, n, w2) \<and> 2 \<le> n \<and> n \<le> 4)))"
  unfolding Let_def
  by (intro conjI)
     (rule add_series_True, rule add_series_None, rule add_series_False,
      rule add_series_retry [THEN conjunct1], rule add_series_retry [THEN conjunct2])

theorem add_series_outcomes_witness:
  "fst (add_series (answering (plain_response 401\<lparr>text_of := ''{\"errorMessage\": \"no\"}'',
                                 json_of := Some (JObj [(''errorMessage'', JStr ''no'')])\<rparr>))
          sonarr0 (JNum 42) (JStr ''Title'') (JStr ''title'') (JNum 1) (JStr ''/tv'') JFalse world0)
     = Some False
   \<and> map_option (fst \<circ> snd)
         (add_series_decorated 1
            (answering (plain_response 401\<lparr>text_of := ''{\"errorMessage\": \"no\"}'',
                                 json_of := Some (JObj [(''errorMessage'', JStr ''no'')])\<rparr>))
            sonarr0 (JNum 42) (JStr ''Title'') (JStr ''title'') (JNum 1) (JStr ''/tv'') JFalse world0)
       = Some 1
   \<and> fst (add_series unreachable sonarr0 (JNum 42) (JStr ''Title'') (JStr ''title'') (JNum 1)
            (JStr ''/tv'') JFalse world0) = None
   \<and> (\<exists>r n w2. add_series_decorated 1 unreachable sonarr0 (JNum 42) (JStr ''Title'')
                    (JStr ''title'') (JNum 1) (JStr ''/tv'') JFalse world0 = Some (r, n, w2) \<and>
                  2 \<le> n \<and> n \<le> 4)"
proof -
  let ?no = "answering (plain_response 401\<lparr>text_of := ''{\"errorMessage\": \"no\"}'',
                                 json_of := Some (JObj [(''errorMessage'', JStr ''no'')])\<rparr>)"
  note rejected = add_series_outcomes
          [of ?no world0 sonarr0 "JNum 42" "JStr ''Title''" "JStr ''title''" "JNum 1"
              "JStr ''/tv''" JFalse 1, unfolded Let_def]
  note failed = add_series_outcomes
          [of unreachable world0 sonarr0 "JNum 42" "JStr ''Title''" "JStr ''title''" "JNum 1"
              "JStr ''/tv''" JFalse 1, unfolded Let_def]
  have 1: "fst (add_series ?no sonarr0 (JNum 42) (JStr ''Title'') (JStr ''title'') (JNum 1)
                  (JStr ''/tv'') JFalse world0) = Some False"
    using rejected [THEN conjunct2, THEN conjunct2, THEN conjunct1]
    by (simp add: answering_def plain_response_def)
  have 2: "map_option (fst \<circ> snd)
             (add_series_decorated 1 ?no sonarr0 (JNum 42) (JStr ''Title'') (JStr ''title'')
                (JNum 1) (JStr ''/tv'') JFalse world0) = Some 1"
    using rejected [THEN conjunct2, THEN conjunct2, THEN conjunct2, THEN conjunct1] 1 by simp
  have 3: "fst (add_series unreachable sonarr0 (JNum 42) (JStr ''Title'') (JStr ''title'') (JNum 1)
                  (JStr ''/tv'') JFalse world0) = None"
    using failed [THEN conjunct2, THEN conjunct1] by (simp add: unreachable_def)
  have 4: "\<exists>r n w2. add_series_decorated 1 unreachable sonarr0 (JNum 42) (JStr ''Title'')
                    (JStr ''title'') (JNum 1) (JStr ''/tv'') JFalse world0 = Some (r, n, w2) \<and>
                  2 \<le> n \<and> n \<le> 4"
    using failed [THEN conjunct2, THEN conjunct2, THEN conjunct2, THEN conjunct2] 3 by blast
  from 1 2 3 4 show ?thesis by blast
qed

subsection \<open>The validation probes\<close>

text \<open>
  C9, as the claim states it, fails for the Trakt client: its probe looks at the status
  code only. A response with status 200 and the empty object as its body, in which no
  field is present, is answered with \<^verbatim>\<open>True\<close>.
\<close>

theorem Trakt_validate_api_key_counterexample:
  "fst (Trakt_validate_api_key (answering (plain_response 200)) trakt0 world1) = True
   \<and> json_of (plain_response 200) = Some (JObj [])"
  by (simp add: Trakt_validate_api_key_def http_def answering_def plain_response_def)

text \<open>
  C9, amended. Both probes return a boolean and never raise. The Sonarr probe returns
  \<^verbatim>\<open>True\<close> exactly when a response arrives with status 200 and \<^verbatim>\<open>'version' in req.json()\<close>
  is true; the Trakt probe returns \<^verbatim>\<open>True\<close> exactly when a response arrives with status
  200, whatever its body. In every other case, an exception of the request or of the
  decoding included, they return \<^verbatim>\<open>False\<close>.
\<close>

theorem validate_api_key_outcomes:
  "fst (Sonarr_validate_api_key srv s w) =
     (\<exists>req j. snd (srv (length (sent w)) (status_request s)) = Some req \<and> status_code req = 200
              \<and> json_of req = Some j \<and> py_in ''version'' j = Some True)
   \<and> fst (Trakt_validate_api_key srv t w) =
     (\<exists>req. snd (srv (length (sent w)) (validate_request t w)) = Some req \<and> status_code req = 200)"
  by (auto simp: Sonarr_validate_api_key_def Sonarr_validate_api_key_try_def
        Trakt_validate_api_key_def http_def
      split: prod.splits option.splits bind_splits)

subsection \<open>An empty list is never returned\<close>

lemma except_Exception_None: "except_Exception (Inl e) None \<noteq> Inr (Some v)"
  by (cases e) simp_all

text \<open>
  C7. For every list method (any address, public or of a user, wrapped or not): when
  the page loop is left with nothing processed, the method returns \<^verbatim>\<open>None\<close>; and it never
  returns the empty list.
\<close>

theorem fetch_never_empty_list:
  "(map_option fst (while_loop (page_body srv self ep) (1, []) w) = Some (Inr []) \<longrightarrow>
      map_option fst (fetch srv self ep w) = Some (Inr None))
   \<and> map_option fst (fetch srv self ep w) \<noteq> Some (Inr (Some []))"
  by (auto simp: fetch_def except_Exception_None split: option.splits sum.splits)

theorem fetch_never_empty_list_witness:
  "map_option fst (while_loop (page_body (answering (single_page [])) trakt0
       (public_list ''https://api.trakt.tv/shows/anticipated'' None)) (1, []) world1) = Some (Inr [])
   \<and> map_option fst (get_anticipated_shows (answering (single_page [])) trakt0 world1) = Some (Inr None)"
  using fetch_never_empty_list
          [of "answering (single_page [])" trakt0
              "public_list ''https://api.trakt.tv/shows/anticipated'' None" world1]
  by (simp add: get_anticipated_shows_def while_loop.simps page_body_def request_headers_def
      public_list_def http_def answering_def single_page_def page_request_def)

subsection \<open>Duplicates in the lists\<close>

text \<open>
  The \<^verbatim>\<open>for\<close> loop of the methods that append the record itself keeps the first
  occurrence of every record, in order, so these lists never hold a record twice.
\<close>

lemma remdups_append_seen: "x \<in> set zs \<Longrightarrow> remdups (ys @ x # zs) = remdups (ys @ zs)"
  by (induction ys) auto

lemma add_items_None:
  "distinct processed \<Longrightarrow> add_items None xs processed = rev (remdups (rev (processed @ xs)))"
proof (induction xs arbitrary: processed)
  case Nil
  then show ?case by (simp add: distinct_remdups_id)
next
  case (Cons x xs)
  show ?case
  proof (cases "x \<in> set processed")
    case True
    then show ?thesis using Cons.IH [OF Cons.prems] by (simp add: remdups_append_seen)
  next
    case False
    then have "distinct (processed @ [x])" using Cons.prems by simp
    from Cons.IH [OF this] False show ?thesis by simp
  qed
qed

lemma add_items_None_distinct: "distinct processed \<Longrightarrow> distinct (add_items None xs processed)"
  by (simp add: add_items_None)

lemma page_body_distinct:
  assumes "category ep = None" and "distinct (snd s)"
  shows "case fst (page_body srv self ep s w) of
           Continue s1 \<Rightarrow> distinct (snd s1)
         | Break (Inr processed) \<Rightarrow> distinct processed
         | Break (Inl e) \<Rightarrow> True"
  using assms
  by (cases s)
     (simp add: page_body_def request_headers_def add_items_None_distinct Let_def
        split: option.splits prod.splits sum.splits page_count_header.splits)

lemma plain_lists_distinct:
  assumes "category ep = None" and "fetch srv self ep w = Some (Inr (Some xs), w1)"
  shows "distinct xs"
proof -
  from assms(2) obtain w2 where run: "while_loop (page_body srv self ep) (1, []) w = Some (Inr xs, w2)"
    by (auto simp: fetch_def except_Exception_None split: option.splits sum.splits if_splits)
  have "case Inr xs of Inr processed \<Rightarrow> distinct processed | Inl (e :: py_error) \<Rightarrow> True"
  proof (rule while_loop_invariant
      [where I = "\<lambda>s w. distinct (snd s)"
         and Q = "\<lambda>r w. case r of Inr processed \<Rightarrow> distinct processed | Inl e \<Rightarrow> True", OF run])
    show "distinct (snd (1 :: int, [] :: json list))" by simp
  next
    fix s w s1 w1
    assume "distinct (snd s)" and "page_body srv self ep s w = (Continue s1, w1)"
    then show "distinct (snd s1)"
      using page_body_distinct [OF assms(1), of s srv self w] by simp
  next
    fix s w r w1
    assume "distinct (snd s)" and "page_body srv self ep s w = (Break r, w1)"
    then show "case r of Inr processed \<Rightarrow> distinct processed | Inl e \<Rightarrow> True"
      using page_body_distinct [OF assms(1), of s srv self w] by (simp split: sum.splits)
  qed
  then show ?thesis by simp
qed

text \<open>
  C1 fails for the two methods that wrap the record. \<^verbatim>\<open>get_popular_shows\<close> tests the
  record itself against the list (\<^verbatim>\<open>if show not in processed_shows\<close>) and appends the
  wrapped record (\<^verbatim>\<open>{'show': show}\<close>), so the test finds nothing: one page that holds the
  same record twice gives a list that holds the same wrapped record twice. On the same
  page \<^verbatim>\<open>get_anticipated_shows\<close> returns the record once.
\<close>

theorem get_popular_shows_duplicates:
  "map_option fst (get_popular_shows (answering (single_page [dark, dark])) trakt0 world1)
     = Some (Inr (Some [JObj [(''show'', dark)], JObj [(''show'', dark)]]))
   \<and> map_option fst (get_anticipated_shows (answering (single_page [dark, dark])) trakt0 world1)
     = Some (Inr (Some [dark]))"
  by (simp add: get_popular_shows_def get_anticipated_shows_def fetch_def public_list_def
      while_loop.simps page_body_def request_headers_def http_def answering_def single_page_def
      dark_def page_request_def)

subsection \<open>The device flow\<close>

text \<open>
  C2 fails in its last part. With the polls answered 429, 426 and 200 the waits are 5
  seconds (before the first poll), 5 again after the 429 and 6 after the 426, and on the
  200 the token response is stored once, under the user name that \<^verbatim>\<open>/users/me\<close> gave. But
  the loop is then left by \<^verbatim>\<open>break\<close> and the function ends in \<^verbatim>\<open>return False\<close>, so
  \<^verbatim>\<open>oauth_authentication\<close>, which tests the value of the poll, returns \<^verbatim>\<open>False\<close>.
\<close>

theorem oauth_authentication_success_returns_False:
  "map_option fst (oauth_authentication device_flow_script trakt0 world1) = Some (Inr False)
   \<and> map_option (slept \<circ> snd) (oauth_authentication device_flow_script trakt0 world1)
       = Some [5, 5, 6]
   \<and> map_option (stored \<circ> snd) (oauth_authentication device_flow_script trakt0 world1)
       = Some [(JStr ''alice'', token_body)]"
  by (simp add: oauth_authentication_def oauth_request_device_code_def device_code_request_def
      oauth_poll_for_access_token_def while_loop.simps oauth_poll_body_def token_request_def
      oauth_process_token_request_def users_me_request_def sleep_def
      http_def device_flow_script_def scripted_def json_response_def plain_response_def
      device_code_body_def token_body_def trakt0_def world1_def Trakt_init_def world0_def)

subsection \<open>The retry policy\<close>

text \<open>
  C4. An operation that returns \<^verbatim>\<open>None\<close> whenever it is called is called four times,
  with the waits \<open>base * 2 ^ 0\<close>, \<open>base * 2 ^ 1\<close> and \<open>base * 2 ^ 2\<close> between the calls
  (each a sleep of that length), and the decorated operation then returns \<^verbatim>\<open>None\<close>.
\<close>

theorem on_predicate_always_None:
  assumes "\<And>w. \<exists>w1. f w = Some (Inr None, w1)"
  shows "\<exists>w1 w2 w3 w4.
           f w = Some (Inr None, w1) \<and>
           f (backoff_wait base 0 w1) = Some (Inr None, w2) \<and>
           f (backoff_wait base 1 w2) = Some (Inr None, w3) \<and>
           f (backoff_wait base 2 w3) = Some (Inr None, w4) \<and>
           on_predicate base 4 f w = Some (Inr None, 4, w4) \<and>
           (0 \<le> base \<longrightarrow>
              (\<forall>k v. slept (backoff_wait base k v) = slept v @ [base * 2 ^ k]))"
proof -
  obtain w1 where 1: "f w = Some (Inr None, w1)" using assms by blast
  obtain w2 where 2: "f (backoff_wait base 0 w1) = Some (Inr None, w2)" using assms by blast
  obtain w3 where 3: "f (backoff_wait base 1 w2) = Some (Inr None, w3)" using assms by blast
  obtain w4 where 4: "f (backoff_wait base 2 w3) = Some (Inr None, w4)" using assms by blast
  have "on_predicate base 4 f w = Some (Inr None, 4, w4)"
    using 1 2 3 4 by (simp add: on_predicate_def eval_nat_numeral)
  moreover have "0 \<le> base \<longrightarrow> (\<forall>k v. slept (backoff_wait base k v) = slept v @ [base * 2 ^ k])"
    by (simp add: backoff_wait_def sleep_def mult_less_0_iff)
  ultimately show ?thesis using 1 2 3 4 by blast
qed

theorem on_predicate_always_None_witness:
  "(\<forall>w. \<exists>w1. returning (get_series unreachable sonarr0) w = Some (Inr None, w1))
   \<and> map_option fst (on_predicate 1 4 (returning (get_series unreachable sonarr0)) world0)
       = Some (Inr None)
   \<and> map_option (fst \<circ> snd) (on_predicate 1 4 (returning (get_series unreachable sonarr0)) world0)
       = Some 4"
proof -
  have h: "\<exists>w1. returning (get_series unreachable sonarr0) w = Some (Inr None, w1)" for w
    by (simp add: returning_def get_series_def http_def unreachable_def)
  from on_predicate_always_None [of "returning (get_series unreachable sonarr0)" world0 1, OF h]
  show ?thesis using h by auto
qed

subsection \<open>The expiry of the device flow\<close>

text \<open>One round of the poll when the budget is used up, and when it is not and the answer
  is not 200.\<close>

lemma oauth_poll_body_expired:
  "\<not> clock w - start < e \<Longrightarrow> oauth_poll_body srv self d start e interval w = (Break (Inr False), w)"
  by (simp add: oauth_poll_body_def)

lemma oauth_poll_body_pending:
  assumes pending: "\<And>k q. url q = Url ''https://api.trakt.tv/oauth/device/token'' \<Longrightarrow>
                        \<exists>r. snd (srv k q) = Some r \<and> status_code r \<noteq> 200"
    and lat: "\<And>k q. 0 \<le> fst (srv k q)"
    and "0 \<le> interval" and "clock w - start < e"
  shows "\<exists>interval1 w1.
           oauth_poll_body srv self d start e interval w = (Continue interval1, w1) \<and>
           interval \<le> interval1 \<and> clock w + interval1 \<le> clock w1 \<and>
           sent w1 = sent w @ [(clock w, token_request self d w)]"
proof -
  obtain t ro where sq: "srv (length (sent w)) (token_request self d w) = (t, ro)"
    by (cases "srv (length (sent w)) (token_request self d w)")
  from pending [of "token_request self d w" "length (sent w)"] sq
  obtain r where r: "ro = Some r" "status_code r \<noteq> 200" by (auto simp: token_request_def)
  from lat [of "length (sent w)" "token_request self d w"] sq have t: "0 \<le> t" by simp
  show ?thesis
    using assms(3,4) sq r t
    by (simp add: oauth_poll_body_def http_def oauth_process_token_request_def sleep_def Let_def)
qed


lemma ceiling_step:
  fixes x y i :: rat
  assumes "0 < i" "0 < x" "y \<le> x - i"
  shows "nat \<lceil>y / i\<rceil> < nat \<lceil>x / i\<rceil>"
proof -
  have "y / i \<le> x / i - 1" using assms by (simp add: field_simps)
  then have "\<lceil>y / i\<rceil> \<le> \<lceil>x / i - 1\<rceil>" by (rule ceiling_mono)
  then have "\<lceil>y / i\<rceil> \<le> \<lceil>x / i\<rceil> - 1" by simp
  moreover have "0 < \<lceil>x / i\<rceil>" using assms by simp
  ultimately show ?thesis by linarith
qed

lemma oauth_poll_loop_expires:
  assumes pending: "\<And>k q. url q = Url ''https://api.trakt.tv/oauth/device/token'' \<Longrightarrow>
                        \<exists>r. snd (srv k q) = Some r \<and> status_code r \<noteq> 200"
    and lat: "\<And>k q. 0 \<le> fst (srv k q)"
    and i: "0 < i" "i \<le> interval" and n0: "n0 \<le> length (sent w)"
    and before: "\<forall>(t, q) \<in> set (drop n0 (sent w)). t - start < e"
  shows "\<exists>w1. while_loop (oauth_poll_body srv self d start e) interval w = Some (Inr False, w1) \<and>
           e \<le> clock w1 - start \<and> n0 \<le> length (sent w1) \<and>
           (\<forall>(t, q) \<in> set (drop n0 (sent w1)). t - start < e)"
proof -
  let ?body = "oauth_poll_body srv self d start e"
  have "\<exists>y. while_loop ?body interval w = Some y"
  proof (rule while_loop_terminates
      [where I = "\<lambda>iv w. i \<le> iv" and m = "\<lambda>iv w. nat \<lceil>(start + e - clock w) / i\<rceil>"])
    show "i \<le> interval" by fact
  next
    fix iv w iv1 w1
    assume iv: "i \<le> iv" and step: "?body iv w = (Continue iv1, w1)"
    have p: "clock w - start < e"
      using step oauth_poll_body_expired [where w = w and start = start and e = e and srv = srv and self = self and d = d and interval = iv] by (cases "clock w - start < e") auto
    from oauth_poll_body_pending [where srv = srv and interval = iv and self = self and d = d, OF pending lat _ p] iv i step
    have "iv \<le> iv1" "clock w + iv1 \<le> clock w1" by auto
    with iv p have "start + e - clock w1 \<le> (start + e - clock w) - i" "0 < start + e - clock w"
      by simp_all
    from ceiling_step [OF i(1) this(2) this(1)] \<open>iv \<le> iv1\<close> iv
    show "i \<le> iv1 \<and> nat \<lceil>(start + e - clock w1) / i\<rceil> < nat \<lceil>(start + e - clock w) / i\<rceil>"
      by simp
  qed
  then obtain r w1 where run: "while_loop ?body interval w = Some (r, w1)" by auto
  have "r = Inr False \<and> e \<le> clock w1 - start \<and> n0 \<le> length (sent w1) \<and>
          (\<forall>(t, q) \<in> set (drop n0 (sent w1)). t - start < e)"
  proof (rule while_loop_invariant
      [where I = "\<lambda>iv w. i \<le> iv \<and> n0 \<le> length (sent w) \<and>
                    (\<forall>(t, q) \<in> set (drop n0 (sent w)). t - start < e)"
         and Q = "\<lambda>r w1. r = Inr False \<and> e \<le> clock w1 - start \<and> n0 \<le> length (sent w1) \<and>
                    (\<forall>(t, q) \<in> set (drop n0 (sent w1)). t - start < e)", OF run])
    show "i \<le> interval \<and> n0 \<le> length (sent w) \<and> (\<forall>(t, q) \<in> set (drop n0 (sent w)). t - start < e)"
      using i n0 before by simp
  next
    fix iv w iv1 w1
    assume inv: "i \<le> iv \<and> n0 \<le> length (sent w) \<and> (\<forall>(t, q) \<in> set (drop n0 (sent w)). t - start < e)"
      and step: "?body iv w = (Continue iv1, w1)"
    have p: "clock w - start < e"
      using step oauth_poll_body_expired [where w = w and start = start and e = e and srv = srv and self = self and d = d and interval = iv] by (cases "clock w - start < e") auto
    from oauth_poll_body_pending [where srv = srv and interval = iv and self = self and d = d, OF pending lat _ p] inv i step
    have "iv \<le> iv1" "sent w1 = sent w @ [(clock w, token_request self d w)]" by auto
    with inv p
    show "i \<le> iv1 \<and> n0 \<le> length (sent w1) \<and> (\<forall>(t, q) \<in> set (drop n0 (sent w1)). t - start < e)"
      by auto
  next
    fix iv w r w1
    assume inv: "i \<le> iv \<and> n0 \<le> length (sent w) \<and> (\<forall>(t, q) \<in> set (drop n0 (sent w)). t - start < e)"
      and step: "?body iv w = (Break r, w1)"
    have p: "\<not> clock w - start < e"
    proof
      assume "clock w - start < e"
      from oauth_poll_body_pending [where srv = srv and interval = iv and self = self and d = d, OF pending lat _ this] inv i step
      show False by auto
    qed
    with step inv
    show "r = Inr False \<and> e \<le> clock w1 - start \<and> n0 \<le> length (sent w1) \<and>
            (\<forall>(t, q) \<in> set (drop n0 (sent w1)). t - start < e)"
      by (auto simp: oauth_poll_body_expired)
  qed
  with run show ?thesis by blast
qed

lemma poll_expires:
  assumes pending: "\<And>k q. url q = Url ''https://api.trakt.tv/oauth/device/token'' \<Longrightarrow>
                        \<exists>r. snd (srv k q) = Some r \<and> status_code r \<noteq> 200"
    and lat: "\<And>k q. 0 \<le> fst (srv k q)"
    and i: "0 < i"
  shows "\<exists>w1. oauth_poll_for_access_token srv self d (JNum i) (JNum e) w = Some (Inr False, w1) \<and>
           e \<le> clock w1 - clock w \<and> length (sent w) \<le> length (sent w1) \<and>
           (\<forall>(t, q) \<in> set (drop (length (sent w)) (sent w1)). t - clock w < e)"
proof -
  let ?w0 = "w\<lparr>slept := slept w @ [i], clock := clock w + i\<rparr>"
  from oauth_poll_loop_expires [where srv = srv and ?n0.0 = "length (sent w)" and w = ?w0 and start = "clock w" and e = e
      and self = self and d = d, OF pending lat i order_refl]
  obtain w1 where "while_loop (oauth_poll_body srv self d (clock w) e) i ?w0 = Some (Inr False, w1)"
    "e \<le> clock w1 - clock w" "length (sent w) \<le> length (sent w1)"
    "\<forall>(t, q) \<in> set (drop (length (sent w)) (sent w1)). t - clock w < e"
    by auto
  then show ?thesis using i
    by (simp add: oauth_poll_for_access_token_def sleep_def Let_def)
qed

text \<open>
  C6. Let the device code be handed out with a positive interval \<open>i\<close> and the budget \<open>e\<close>
  (\<^verbatim>\<open>expires_in\<close>), let no call take negative time, and let every poll be answered with
  a status that is not terminal. Then \<^verbatim>\<open>oauth_authentication\<close> returns, and returns
  \<^verbatim>\<open>False\<close>; when it returns at least \<open>e\<close> seconds have passed since polling began; and
  every poll was issued less than \<open>e\<close> seconds after polling began.
\<close>

theorem device_flow_expires:
  assumes pending:
      "\<And>k q. url q = Url ''https://api.trakt.tv/oauth/device/token'' \<Longrightarrow>
         \<exists>r. snd (srv k q) = Some r \<and> status_code r \<notin> {200, 404, 409, 410, 418}"
    and lat: "\<And>k q. 0 \<le> fst (srv k q)"
    and code: "srv (length (sent w)) (device_code_request self w) = (t0, Some r0)"
      "json_of r0 = Some (JObj device_code_response)"
      "map_of device_code_response ''device_code'' = Some d"
      "map_of device_code_response ''user_code'' = Some user_code"
      "map_of device_code_response ''verification_url'' = Some verification_url"
      "map_of device_code_response ''interval'' = Some (JNum i)"
      "map_of device_code_response ''expires_in'' = Some (JNum e)"
    and i: "0 < i"
  shows "\<exists>w1. oauth_authentication srv self w = Some (Inr False, w1) \<and>
           e \<le> clock w1 - (clock w + t0) \<and>
           (\<forall>(t, q) \<in> set (drop (Suc (length (sent w))) (sent w1)). t - (clock w + t0) < e)"
proof -
  have p: "\<And>k q. url q = Url ''https://api.trakt.tv/oauth/device/token'' \<Longrightarrow>
             \<exists>r. snd (srv k q) = Some r \<and> status_code r \<noteq> 200"
    using pending by blast
  let ?w0 = "w\<lparr>sent := sent w @ [(clock w, device_code_request self w)], clock := clock w + t0\<rparr>"
  have req: "oauth_request_device_code srv self w = (Inr (JObj device_code_response), ?w0)"
    using code by (simp add: oauth_request_device_code_def http_def)
  from poll_expires [where srv = srv and self = self and d = d and e = e and w = ?w0, OF p lat i]
  obtain w1 where
    "oauth_poll_for_access_token srv self d (JNum i) (JNum e) ?w0 = Some (Inr False, w1)"
    "e \<le> clock w1 - (clock w + t0)"
    "\<forall>(t, q) \<in> set (drop (Suc (length (sent w))) (sent w1)). t - (clock w + t0) < e"
    by auto
  then show ?thesis using req code
    by (simp add: oauth_authentication_def)
qed

theorem device_flow_expires_witness:
  "\<exists>w1. oauth_authentication never_authorized trakt0 world1 = Some (Inr False, w1)
         \<and> 600 \<le> clock w1
         \<and> (\<forall>(t, q) \<in> set (drop 1 (sent w1)). t < 600)"
  using device_flow_expires
          [where srv = never_authorized and self = trakt0 and w = world1 and ?t0.0 = 0
             and ?r0.0 = "json_response 200 device_code_body"
             and device_code_response =
                   "[(''device_code'', JStr ''d3v1c3''), (''expires_in'', JNum 600),
                     (''interval'', JNum 5), (''user_code'', JStr ''5055CC52''),
                     (''verification_url'', JStr ''https://trakt.tv/activate'')]"
             and d = "JStr ''d3v1c3''" and user_code = "JStr ''5055CC52''"
             and verification_url = "JStr ''https://trakt.tv/activate''" and i = 5 and e = 600]
  by (simp add: never_authorized_def device_code_request_def json_response_def plain_response_def
      device_code_body_def world1_def world0_def Trakt_init_def)

subsection \<open>A run of \<open>oauth_headers\<close>\<close>

text \<open>With no user named, the first user of the configuration is taken, the two key
  entries are removed from it, and the token, which has not expired, is written into
  the header dict.\<close>

lemma oauth_headers_world2:
  "oauth_headers srv trakt0 None world2 =
     (Inr 0, world2\<lparr>cfg_trakt := [(''alice'', token_body)],
                     heap := (heap world2)(0 := (heap world2 0)(''Authorization'' \<mapsto> ''Bearer t0k3n''))\<rparr>)"
  by (simp add: oauth_headers_def first_user_def world2_def world1_def world0_def Trakt_init_def
      trakt0_def token_body_def py_round_def Let_def)

text \<open>The two rounds of the watchlist on pages that carry the page count 2: the token is
  found unexpired in both.\<close>

lemma world3:
  "world3 =
     world2\<lparr>heap := (heap world2)(0 := (heap world2 0)(''Authorization'' \<mapsto> ''Bearer t0k3n'')),
            sent := [(0, page_request ''https://api.trakt.tv/sync/watchlist/shows''
                           ((heap world2 0)(''Authorization'' \<mapsto> ''Bearer t0k3n'')) 1)],
            clock := 5, slept := [5]\<rparr>"
  by (simp add: world3_def watchlist_def user_list_def page_body_def request_headers_def
      oauth_headers_def http_def sleep_def answering_def counted_page_def
      world2_def world1_def world0_def Trakt_init_def trakt0_def token_body_def py_round_def Let_def)

lemma round1:
  "page_body (answering (counted_page 2 [dark])) trakt0 watchlist (1, []) world2
     = (Continue (2, [dark]), world3)"
  unfolding world3
  by (simp add: watchlist_def user_list_def page_body_def request_headers_def
      oauth_headers_def http_def sleep_def answering_def counted_page_def
      world2_def world1_def world0_def Trakt_init_def trakt0_def token_body_def py_round_def Let_def)

lemma round2:
  "\<exists>w. page_body (answering (counted_page 2 [dark])) trakt0 watchlist (2, [dark]) world3
     = (Break (Inr [dark]), w)"
  unfolding world3
  by (simp add: watchlist_def user_list_def page_body_def request_headers_def
      oauth_headers_def http_def sleep_def answering_def counted_page_def
      world2_def world1_def world0_def Trakt_init_def trakt0_def token_body_def py_round_def Let_def)

lemma two_rounds:
  "rounds (page_body (answering (counted_page 2 [dark])) trakt0 watchlist) ((1, []), world2) p \<Longrightarrow>
     p = ((1, []), world2) \<or> p = ((2, [dark]), world3)"
proof (induction rule: rounds.induct)
  case first
  show ?case by simp
next
  case (again s1 w1 s2 w2)
  then show ?case using round1 round2 by auto
qed

lemma headers_in_two_rounds:
  "rounds (page_body (answering (counted_page 2 [dark])) trakt0 watchlist) ((1, []), world2) (s1, w1) \<Longrightarrow>
     \<exists>hs w2. request_headers (answering (counted_page 2 [dark])) trakt0 watchlist w1 = (Inr hs, w2)
             \<and> sent w2 = sent w1"
proof -
  assume "rounds (page_body (answering (counted_page 2 [dark])) trakt0 watchlist) ((1, []), world2) (s1, w1)"
  from two_rounds [OF this] have "w1 = world2 \<or> w1 = world3" by auto
  then show ?thesis
  proof
    assume "w1 = world2"
    then show ?thesis
      by (simp add: watchlist_def user_list_def request_headers_def
          oauth_headers_def world2_def world1_def world0_def Trakt_init_def trakt0_def
          token_body_def py_round_def Let_def)
  next
    assume "w1 = world3"
    then show ?thesis
      unfolding world3
      by (simp add: watchlist_def user_list_def request_headers_def
          oauth_headers_def world2_def world1_def world0_def Trakt_init_def trakt0_def
          token_body_def py_round_def Let_def)
  qed
qed

subsection \<open>The number of page requests\<close>

text \<open>A loop that has come to a round behaves from there as it does from its start.\<close>

lemma while_loop_rounds:
  "rounds body sw (s1, w1) \<Longrightarrow> while_loop body (fst sw) (snd sw) = while_loop body s1 w1"
proof (induction "(s1, w1)" arbitrary: s1 w1 rule: rounds.induct)
  case first
  then show ?case by simp
next
  case (again s1 w1 s2 w2)
  have "while_loop body s1 w1 = while_loop body s2 w2"
    using again.hyps(3) by (subst while_loop.simps) simp
  with again.hyps(2) show ?case by simp
qed

text \<open>One round on a page that carries status 200, the page count \<open>N\<close> and records.\<close>

lemma page_body_page:
  assumes "address_of ep = Some a"
    and "request_headers srv self ep w = (Inr hs, w1)"
    and "srv (length (sent w1)) (page_request a (heap w1 hs) pg) = (t, Some req)"
    and "status_code req = 200" and "page_count req = Count N" and "items_of req = Some xs"
    and "0 < N"
  shows "page_body srv self ep (pg, processed) w =
           (if N \<le> pg then Break (Inr (add_items (category ep) xs processed))
            else Continue (pg + 1, add_items (category ep) xs processed),
            (if N \<le> pg then (\<lambda>v. v) else (\<lambda>v. v\<lparr>slept := slept v @ [5], clock := clock v + 5\<rparr>))
              (w1\<lparr>sent := sent w1 @ [(clock w1, page_request a (heap w1 hs) pg)],
                  clock := clock w1 + t\<rparr>))"
  using assms by (simp add: page_body_def http_def sleep_def Let_def)


lemma upto_first: "pg \<le> N \<Longrightarrow> [pg..N] = pg # [pg + 1..N]"
  by (simp add: upto_rec1)

text \<open>The page requests of a log; what is added to the log while the headers are
  obtained is no page request.\<close>

lemma pages_of_Nil [simp]: "pages_of [] = []"
  by (simp add: pages_of_def)

lemma pages_of_append [simp]: "pages_of (qs @ rs) = pages_of qs @ pages_of rs"
  by (simp add: pages_of_def)

lemma pages_of_Cons [simp]:
  "pages_of ((t, q) # qs) = (case page q of None \<Rightarrow> [] | Some pg \<Rightarrow> [pg]) @ pages_of qs"
  by (simp add: pages_of_def)

lemma http_sent: "http srv q w = (r, w1) \<Longrightarrow> sent w1 = sent w @ [(clock w, q)]"
  by (auto simp: http_def split: prod.splits)

lemma oauth_process_token_request_sent:
  assumes "oauth_process_token_request srv self req w = (r, w1)"
  shows "\<exists>qs. sent w1 = sent w @ qs \<and> pages_of qs = []"
proof (cases "status_code req = 200")
  case False
  with assms show ?thesis by (simp add: oauth_process_token_request_def)
next
  case True
  show ?thesis
  proof (cases "do { j \<leftarrow> json_of req; t \<leftarrow> subscript j ''access_token''; b \<leftarrow> bearer t; Some (j, b) }")
    case None
    with assms True show ?thesis by (simp add: oauth_process_token_request_def)
  next
    case (Some jb)
    obtain j b where jb: "jb = (j, b)" by (cases jb)
    let ?w1 = "w\<lparr>heap := (heap w)(headers self := (heap w (headers self))(''Authorization'' \<mapsto> b))\<rparr>"
    obtain r2 w2 where h: "http srv (users_me_request (heap ?w1 (headers self))) ?w1 = (r2, w2)"
      by (cases "http srv (users_me_request (heap ?w1 (headers self))) ?w1")
    from http_sent [OF h]
    have 2: "sent w2 = sent w @ [(clock w, users_me_request (heap ?w1 (headers self)))]" by simp
    have "sent w1 = sent w2"
      using assms True Some jb h
      by (auto simp: oauth_process_token_request_def Let_def split: option.splits if_splits)
    with 2 show ?thesis by (simp add: users_me_request_def)
  qed
qed

lemma oauth_refresh_access_token_sent:
  assumes "oauth_refresh_access_token srv self refresh_token w = (r, w1)"
  shows "\<exists>qs. sent w1 = sent w @ qs \<and> pages_of qs = []"
proof -
  obtain r0 w0 where h: "http srv (refresh_request self refresh_token w) w = (r0, w0)"
    by (cases "http srv (refresh_request self refresh_token w) w")
  from http_sent [OF h] have 0: "sent w0 = sent w @ [(clock w, refresh_request self refresh_token w)]" .
  show ?thesis
  proof (cases r0)
    case None
    with assms h 0 show ?thesis by (simp add: oauth_refresh_access_token_def refresh_request_def)
  next
    case (Some req)
    obtain r2 w2 where p: "oauth_process_token_request srv self req w0 = (r2, w2)"
      by (cases "oauth_process_token_request srv self req w0")
    from assms h Some p have "w1 = w2"
      by (auto simp: oauth_refresh_access_token_def split: sum.splits prod.splits)
    with oauth_process_token_request_sent [OF p] 0 show ?thesis
      by (auto simp: refresh_request_def)
  qed
qed

lemma first_user_sent: "first_user w = (r, w1) \<Longrightarrow> sent w1 = sent w"
  by (auto simp: first_user_def Let_def split: list.splits)

lemma oauth_headers_sent:
  assumes "oauth_headers srv self user w = (r, w1)"
  shows "\<exists>qs. sent w1 = sent w @ qs \<and> pages_of qs = []"
proof -
  obtain u w0 where u: "(case user of None \<Rightarrow> first_user w
       | Some u \<Rightarrow> if u \<notin> fst ` set (cfg_trakt w) then first_user w else (Some u, w)) = (u, w0)"
    by (cases "(case user of None \<Rightarrow> first_user w
       | Some u \<Rightarrow> if u \<notin> fst ` set (cfg_trakt w) then first_user w else (Some u, w))")
  then have 0: "sent w0 = sent w"
    by (auto dest: first_user_sent split: option.splits if_splits)
  show ?thesis
  proof (cases u)
    case None
    with assms u 0 show ?thesis by (simp add: oauth_headers_def)
  next
    case (Some user1)
    note u1 = Some
    show ?thesis
    proof (cases "map_of (cfg_trakt w0) user1")
      case None
      with assms u u1 0 show ?thesis by (simp add: oauth_headers_def)
    next
      case (Some ti)
      note ti = Some
      show ?thesis
      proof (cases "do { c \<leftarrow> subscript ti ''created_at''; e \<leftarrow> subscript ti ''expires_in'';
                         expires_at \<leftarrow> py_add c e; py_less_int expires_at (py_round (clock w0)) }")
        case None
        with assms u u1 ti 0 show ?thesis by (simp add: oauth_headers_def)
      next
        case (Some expired)
        obtain r2 w2 where rf:
          "(if expired then
              (case subscript ti ''refresh_token'' of
                 None \<Rightarrow> (Inl Exception, w0)
               | Some refresh_token \<Rightarrow> oauth_refresh_access_token srv self refresh_token w0)
            else (Inr False, w0)) = (r2, w2)"
          by (cases "(if expired then
              (case subscript ti ''refresh_token'' of
                 None \<Rightarrow> (Inl Exception, w0)
               | Some refresh_token \<Rightarrow> oauth_refresh_access_token srv self refresh_token w0)
            else (Inr False, w0))")
        then have 2: "\<exists>qs. sent w2 = sent w0 @ qs \<and> pages_of qs = []"
          by (auto dest: oauth_refresh_access_token_sent split: if_splits option.splits)
        have "sent w1 = sent w2"
          using assms u u1 ti Some rf
          by (auto simp: oauth_headers_def Let_def split: sum.splits option.splits)
        with 2 0 show ?thesis by auto
      qed
    qed
  qed
qed

lemma request_headers_sent:
  "request_headers srv self ep w = (r, w1) \<Longrightarrow> \<exists>qs. sent w1 = sent w @ qs \<and> pages_of qs = []"
  by (auto simp: request_headers_def dest: oauth_headers_sent split: option.splits)

text \<open>From a round with a page number up to \<open>N\<close> the loop goes on to page \<open>N\<close> and ends
  there.\<close>

lemma pages_onward:
  assumes N: "0 < N" and a: "address_of ep = Some a"
    and pages: "\<forall>k hs pg. \<exists>t req. srv k (page_request a hs pg) = (t, Some req) \<and>
                  status_code req = 200 \<and> page_count req = Count N \<and> items_of req \<noteq> None"
    and creds: "\<forall>s1 w1. rounds (page_body srv self ep) sw (s1, w1) \<longrightarrow>
                  (\<exists>hs w2. request_headers srv self ep w1 = (Inr hs, w2))"
    and here: "rounds (page_body srv self ep) sw ((pg, processed), w)"
    and pg: "pg \<le> N"
  shows "\<exists>xs qs w1. while_loop (page_body srv self ep) (pg, processed) w = Some (Inr xs, w1) \<and>
           sent w1 = sent w @ qs \<and> pages_of qs = [pg..N]"
  using here pg
proof (induction "nat (N - pg)" arbitrary: pg processed w)
  case 0
  then have last: "pg = N" by simp
  from creds "0.prems"(1) obtain hs w2 where
    h: "request_headers srv self ep w = (Inr hs, w2)" by blast
  from request_headers_sent [OF h] obtain rs where
    rs: "sent w2 = sent w @ rs" "pages_of rs = []" by blast
  from pages [rule_format, of "length (sent w2)" "heap w2 hs" pg] obtain t req xs where
    r: "srv (length (sent w2)) (page_request a (heap w2 hs) pg) = (t, Some req)"
       "status_code req = 200" "page_count req = Count N" "items_of req = Some xs" by auto
  let ?qs = "rs @ [(clock w2, page_request a (heap w2 hs) pg)]"
  have "while_loop (page_body srv self ep) (pg, processed) w
          = Some (Inr (add_items (category ep) xs processed),
                  w2\<lparr>sent := sent w @ ?qs, clock := clock w2 + t\<rparr>)"
    using page_body_page [OF a h r N, of processed] last rs(1)
    by (subst while_loop.simps) simp
  moreover have "pages_of ?qs = [pg..N]"
    using rs(2) last by (simp add: page_request_def)
  ultimately show ?case by (intro exI conjI) (assumption, simp, assumption)
next
  case (Suc n)
  then have more: "pg < N" by simp
  from creds Suc.prems(1) obtain hs w2 where
    h: "request_headers srv self ep w = (Inr hs, w2)" by blast
  from request_headers_sent [OF h] obtain rs where
    rs: "sent w2 = sent w @ rs" "pages_of rs = []" by blast
  from pages [rule_format, of "length (sent w2)" "heap w2 hs" pg] obtain t req xs where
    r: "srv (length (sent w2)) (page_request a (heap w2 hs) pg) = (t, Some req)"
       "status_code req = 200" "page_count req = Count N" "items_of req = Some xs" by auto
  let ?w3 = "w2\<lparr>sent := sent w2 @ [(clock w2, page_request a (heap w2 hs) pg)],
                clock := clock w2 + t, slept := slept w2 @ [5], clock := clock w2 + t + 5\<rparr>"
  let ?p1 = "add_items (category ep) xs processed"
  have step: "page_body srv self ep (pg, processed) w = (Continue (pg + 1, ?p1), ?w3)"
    using page_body_page [OF a h r N, of processed] more by simp
  then have "rounds (page_body srv self ep) sw ((pg + 1, ?p1), ?w3)"
    using Suc.prems(1) by (rule rounds.again [rotated])
  moreover have "n = nat (N - (pg + 1))" "pg + 1 \<le> N" using Suc.hyps(2) more by simp_all
  ultimately obtain ys qs w1 where
    rest: "while_loop (page_body srv self ep) (pg + 1, ?p1) ?w3 = Some (Inr ys, w1)"
      "sent w1 = sent ?w3 @ qs" "pages_of qs = [pg + 1..N]"
    using Suc.hyps(1) by blast
  have "while_loop (page_body srv self ep) (pg, processed) w = Some (Inr ys, w1)"
    using step rest(1) by (subst while_loop.simps) simp
  moreover have "sent w1 = sent w @ (rs @ (clock w2, page_request a (heap w2 hs) pg) # qs)"
    using rest(2) rs(1) by simp
  moreover have "pages_of (rs @ (clock w2, page_request a (heap w2 hs) pg) # qs) = [pg..N]"
    using rest(3) rs(2) more by (simp add: upto_first page_request_def)
  ultimately show ?case by blast
qed

text \<open>A first page without a page count, or with the page count zero, is the last.\<close>

lemma one_page_request:
  assumes a: "address_of ep = Some a"
    and h: "request_headers srv self ep w = (Inr hs, w2)"
    and r: "srv (length (sent w2)) (page_request a (heap w2 hs) 1) = (t, Some req)"
      "page_count req = Absent \<or> page_count req = Count 0"
  shows "\<exists>r qs w1. while_loop (page_body srv self ep) (1, []) w = Some (r, w1) \<and>
           sent w1 = sent w @ qs \<and> pages_of qs = [1]"
proof -
  from request_headers_sent [OF h] obtain rs where
    rs: "sent w2 = sent w @ rs" "pages_of rs = []" by blast
  let ?w3 = "w2\<lparr>sent := sent w2 @ [(clock w2, page_request a (heap w2 hs) 1)], clock := clock w2 + t\<rparr>"
  have "\<exists>r. page_body srv self ep (1, []) w = (Break r, ?w3)"
    using a h r by (auto simp: page_body_def http_def Let_def split: option.splits)
  then obtain r where b: "page_body srv self ep (1, []) w = (Break r, ?w3)" by blast
  then have "while_loop (page_body srv self ep) (1, []) w = Some (r, ?w3)"
    by (subst while_loop.simps) simp
  moreover have "sent ?w3 = sent w @ (rs @ [(clock w2, page_request a (heap w2 hs) 1)])"
    using rs(1) by simp
  moreover have "pages_of (rs @ [(clock w2, page_request a (heap w2 hs) 1)]) = [1]"
    using rs(2) by (simp add: page_request_def)
  ultimately show ?thesis by blast
qed

text \<open>A loop whose first round leaves it begins no other round.\<close>

lemma rounds_of_one:
  assumes "rounds body sw p" and "body (fst sw) (snd sw) = (Break r, w1)"
  shows "p = sw"
  using assms
proof (induction rule: rounds.induct)
  case first
  show ?case by simp
next
  case (again s1 w1 s2 w2)
  then show ?case by auto
qed

text \<open>The round of the watchlist at a time when the token has expired: a new token
  is asked for, then the user name, then the page.\<close>

lemma refreshed_headers:
  "\<exists>w2. request_headers (refreshing (counted_page 1 [dark])) trakt0 watchlist world5 = (Inr 0, w2) \<and>
         length (sent w2) = 2"
  by (simp add: watchlist_def user_list_def request_headers_def oauth_headers_def
      oauth_refresh_access_token_def oauth_process_token_request_def refresh_request_def
      users_me_request_def http_def refreshing_def json_response_def alice_body_def
      world5_def world2_def world1_def world0_def Trakt_init_def trakt0_def token_body_def
      py_round_def Let_def)

lemma refreshed_round:
  "\<exists>w1. page_body (refreshing (counted_page 1 [dark])) trakt0 watchlist (1, []) world5
          = (Break (Inr [dark]), w1) \<and> length (sent w1) = 3"
  by (simp add: watchlist_def user_list_def page_body_def request_headers_def oauth_headers_def
      oauth_refresh_access_token_def oauth_process_token_request_def refresh_request_def
      users_me_request_def page_request_def http_def refreshing_def json_response_def
      counted_page_def alice_body_def
      world5_def world2_def world1_def world0_def Trakt_init_def trakt0_def token_body_def
      py_round_def Let_def)

text \<open>
  C3, as the claim states it, fails: responses with status 200 and the page count \<open>N\<close> do
  not make the loop issue \<open>N\<close> page requests.
  \<^item> When the body of such a response does not decode to a sequence, \<^verbatim>\<open>req.json()\<close> raises
    and the method ends after this one request: with \<open>N = 3\<close>, one page request.
  \<^item> \<^verbatim>\<open>get_user_list_shows\<close> without a user raises when it builds its address, before
    any request: no request at all.
  \<^item> A list of a user, when the configuration names no user, raises in \<^verbatim>\<open>oauth_headers\<close>,
    before the page request: no request at all.
\<close>

theorem page_requests_counterexample:
  "map_option fst (get_anticipated_shows (answering (broken_page 3)) trakt0 world1)
     = Some (Inr None)
   \<and> map_option (pages_of \<circ> sent \<circ> snd)
         (get_anticipated_shows (answering (broken_page 3)) trakt0 world1) = Some [1]
   \<and> get_user_list_shows (answering (counted_page 3 [dark])) trakt0 ''favourites'' None world2
       = Some (Inr None, world2)
   \<and> sent world2 = []
   \<and> map_option fst (get_watchlist_shows (answering (counted_page 3 [dark])) trakt0 None world4)
       = Some (Inr None)
   \<and> map_option (sent \<circ> snd)
         (get_watchlist_shows (answering (counted_page 3 [dark])) trakt0 None world4) = Some []"
  by (simp add: get_anticipated_shows_def get_user_list_shows_def get_watchlist_shows_def
      fetch_def while_loop.simps public_list_def user_list_def page_body_def request_headers_def
      oauth_headers_def first_user_def http_def answering_def broken_page_def counted_page_def
      page_request_def world4_def world2_def world1_def world0_def Trakt_init_def trakt0_def Let_def)

text \<open>
  C3, amended. The requests of a run are the entries that it adds to \<open>sent\<close>; the page
  requests among them are those that carry a page number (\<open>pages_of\<close>), the others being
  what \<^verbatim>\<open>oauth_headers\<close> sends to renew a token that has expired.
  \<^item> If the address is built (for the two user-list methods: a user is given), the headers
    are obtained in every round (for the public lists they always are; for the lists of
    a user this is \<^verbatim>\<open>oauth_headers\<close> returning), and every page request is answered with
    status 200, the page count \<open>N > 0\<close> and a body that decodes to a sequence of records,
    then the loop ends, the method returns, and the page requests made are exactly the
    \<open>N\<close> requests for the pages \<open>1, ..., N\<close>, in this order.
  \<^item> If the address is built, the headers are obtained and the first page request is
    answered without a page count, or with the page count zero, then the loop ends after
    this one page request, for page 1, whatever the status and the body are.
\<close>

theorem page_requests:
  "(0 < N \<and> address_of ep = Some a \<and>
    (\<forall>k hs pg. \<exists>t req. srv k (page_request a hs pg) = (t, Some req) \<and> status_code req = 200 \<and>
                  page_count req = Count N \<and> items_of req \<noteq> None) \<and>
    (\<forall>s1 w1. rounds (page_body srv self ep) ((1, []), w) (s1, w1) \<longrightarrow>
              (\<exists>hs w2. request_headers srv self ep w1 = (Inr hs, w2)))
    \<longrightarrow> (\<exists>xs qs w1. while_loop (page_body srv self ep) (1, []) w = Some (Inr xs, w1) \<and>
           fetch srv self ep w = Some (Inr (if xs = [] then None else Some xs), w1) \<and>
           sent w1 = sent w @ qs \<and> pages_of qs = [1..N]))
   \<and> (address_of ep = Some a \<and>
      request_headers srv self ep w = (Inr hs, w2) \<and>
      srv (length (sent w2)) (page_request a (heap w2 hs) 1) = (t, Some req) \<and>
      (page_count req = Absent \<or> page_count req = Count 0)
      \<longrightarrow> (\<exists>r qs w1. while_loop (page_body srv self ep) (1, []) w = Some (r, w1) \<and>
             sent w1 = sent w @ qs \<and> pages_of qs = [1]))"
proof (intro conjI impI)
  assume h: "0 < N \<and> address_of ep = Some a \<and>
    (\<forall>k hs pg. \<exists>t req. srv k (page_request a hs pg) = (t, Some req) \<and> status_code req = 200 \<and>
                  page_count req = Count N \<and> items_of req \<noteq> None) \<and>
    (\<forall>s1 w1. rounds (page_body srv self ep) ((1, []), w) (s1, w1) \<longrightarrow>
              (\<exists>hs w2. request_headers srv self ep w1 = (Inr hs, w2)))"
  then have N: "0 < N" and a: "address_of ep = Some a"
    and pages: "\<forall>k hs pg. \<exists>t req. srv k (page_request a hs pg) = (t, Some req) \<and>
                  status_code req = 200 \<and> page_count req = Count N \<and> items_of req \<noteq> None"
    and creds: "\<forall>s1 w1. rounds (page_body srv self ep) ((1, []), w) (s1, w1) \<longrightarrow>
                  (\<exists>hs w2. request_headers srv self ep w1 = (Inr hs, w2))"
    by blast+
  from N have "(1 :: int) \<le> N" by simp
  from pages_onward [OF N a pages creds rounds.first this]
  obtain xs qs w1 where
    "while_loop (page_body srv self ep) (1, []) w = Some (Inr xs, w1)"
    "sent w1 = sent w @ qs" "pages_of qs = [1..N]"
    by blast
  then show "\<exists>xs qs w1. while_loop (page_body srv self ep) (1, []) w = Some (Inr xs, w1) \<and>
           fetch srv self ep w = Some (Inr (if xs = [] then None else Some xs), w1) \<and>
           sent w1 = sent w @ qs \<and> pages_of qs = [1..N]"
    by (auto simp: fetch_def)
next
  assume "address_of ep = Some a \<and>
      request_headers srv self ep w = (Inr hs, w2) \<and>
      srv (length (sent w2)) (page_request a (heap w2 hs) 1) = (t, Some req) \<and>
      (page_count req = Absent \<or> page_count req = Count 0)"
  then show "\<exists>r qs w1. while_loop (page_body srv self ep) (1, []) w = Some (r, w1) \<and>
             sent w1 = sent w @ qs \<and> pages_of qs = [1]"
    using one_page_request [where srv = srv and self = self and ep = ep and w = w] by blast
qed

theorem page_requests_witness:
  "(\<exists>xs qs w1. get_anticipated_shows (answering (counted_page 2 [dark])) trakt0 world1
                  = Some (Inr (if xs = [] then None else Some xs), w1) \<and>
                sent w1 = sent world1 @ qs \<and> pages_of qs = [1, 2])
   \<and> (\<exists>r qs w1. while_loop (page_body (answering (single_page [dark])) trakt0
                     (user_list (Some ''https://api.trakt.tv/sync/watchlist/shows'') None))
                   (1, []) world2 = Some (r, w1) \<and>
                 sent w1 = sent world2 @ qs \<and> pages_of qs = [1])
   \<and> (\<exists>xs qs w1. get_watchlist_shows (answering (counted_page 2 [dark])) trakt0 (Some ''alice'') world2
                  = Some (Inr (if xs = [] then None else Some xs), w1) \<and>
                sent w1 = sent world2 @ qs \<and> pages_of qs = [1, 2])
   \<and> (\<exists>xs qs w1. get_watchlist_shows (refreshing (counted_page 1 [dark])) trakt0 (Some ''alice'') world5
                  = Some (Inr (if xs = [] then None else Some xs), w1) \<and>
                sent w1 = sent world5 @ qs \<and> pages_of qs = [1] \<and> length qs = 3)"
proof -
  have "0 < (2 :: int) \<and>
        address_of (public_list ''https://api.trakt.tv/shows/anticipated'' None)
          = Some ''https://api.trakt.tv/shows/anticipated'' \<and>
        (\<forall>k hs pg. \<exists>t req.
            answering (counted_page 2 [dark]) k
              (page_request ''https://api.trakt.tv/shows/anticipated'' hs pg) = (t, Some req) \<and>
            status_code req = 200 \<and> page_count req = Count 2 \<and> items_of req \<noteq> None) \<and>
        (\<forall>s1 w1.
            rounds (page_body (answering (counted_page 2 [dark])) trakt0
                      (public_list ''https://api.trakt.tv/shows/anticipated'' None))
              ((1, []), world1) (s1, w1) \<longrightarrow>
            (\<exists>hs w2.
                request_headers (answering (counted_page 2 [dark])) trakt0
                  (public_list ''https://api.trakt.tv/shows/anticipated'' None) w1 = (Inr hs, w2)))"
    by (simp add: public_list_def request_headers_def answering_def counted_page_def)
  from page_requests
         [where N = 2 and ep = "public_list ''https://api.trakt.tv/shows/anticipated'' None"
            and a = "''https://api.trakt.tv/shows/anticipated''"
            and srv = "answering (counted_page 2 [dark])" and self = trakt0 and w = world1,
          THEN conjunct1, THEN mp, OF this]
  obtain xs qs w1 where
    f: "fetch (answering (counted_page 2 [dark])) trakt0
          (public_list ''https://api.trakt.tv/shows/anticipated'' None) world1
        = Some (Inr (if xs = [] then None else Some xs), w1)"
      "sent w1 = sent world1 @ qs" "pages_of qs = [1..2]"
    by blast
  have u: "[1..2 :: int] = [1, 2]" by (simp add: upto_rec1)
  have 1: "\<exists>xs qs w1. get_anticipated_shows (answering (counted_page 2 [dark])) trakt0 world1
                  = Some (Inr (if xs = [] then None else Some xs), w1) \<and>
                sent w1 = sent world1 @ qs \<and> pages_of qs = [1, 2]"
    unfolding get_anticipated_shows_def using f u by (intro exI [of _ xs] exI [of _ qs] exI [of _ w1]) simp
  have 2: "\<exists>r qs w1. while_loop (page_body (answering (single_page [dark])) trakt0
                     (user_list (Some ''https://api.trakt.tv/sync/watchlist/shows'') None))
                   (1, []) world2 = Some (r, w1) \<and>
                 sent w1 = sent world2 @ qs \<and> pages_of qs = [1]"
    using page_requests
            [where ep = "user_list (Some ''https://api.trakt.tv/sync/watchlist/shows'') None"
               and a = "''https://api.trakt.tv/sync/watchlist/shows''"
               and srv = "answering (single_page [dark])" and self = trakt0 and w = world2
               and hs = 0
               and ?w2.0 = "snd (oauth_headers (answering (single_page [dark])) trakt0 None world2)"
               and t = 0 and req = "single_page [dark]",
             THEN conjunct2]
    by (simp add: user_list_def request_headers_def oauth_headers_world2 answering_def
        single_page_def)
  have "0 < (2 :: int) \<and>
        address_of watchlist = Some ''https://api.trakt.tv/sync/watchlist/shows'' \<and>
        (\<forall>k hs pg. \<exists>t req.
            answering (counted_page 2 [dark]) k
              (page_request ''https://api.trakt.tv/sync/watchlist/shows'' hs pg) = (t, Some req) \<and>
            status_code req = 200 \<and> page_count req = Count 2 \<and> items_of req \<noteq> None) \<and>
        (\<forall>s1 w1.
            rounds (page_body (answering (counted_page 2 [dark])) trakt0 watchlist)
              ((1, []), world2) (s1, w1) \<longrightarrow>
            (\<exists>hs w2.
                request_headers (answering (counted_page 2 [dark])) trakt0 watchlist w1 = (Inr hs, w2)))"
    using headers_in_two_rounds
    by (simp add: watchlist_def user_list_def answering_def counted_page_def) blast
  from page_requests
         [where N = 2 and ep = watchlist and a = "''https://api.trakt.tv/sync/watchlist/shows''"
            and srv = "answering (counted_page 2 [dark])" and self = trakt0 and w = world2,
          THEN conjunct1, THEN mp, OF this]
  obtain ys ps v1 where
    g: "fetch (answering (counted_page 2 [dark])) trakt0 watchlist world2
        = Some (Inr (if ys = [] then None else Some ys), v1)"
      "sent v1 = sent world2 @ ps" "pages_of ps = [1..2]"
    by blast
  have 3: "\<exists>xs qs w1. get_watchlist_shows (answering (counted_page 2 [dark])) trakt0 (Some ''alice'') world2
                  = Some (Inr (if xs = [] then None else Some xs), w1) \<and>
                sent w1 = sent world2 @ qs \<and> pages_of qs = [1, 2]"
    unfolding get_watchlist_shows_def watchlist_def [symmetric] using g u
    by (intro exI [of _ ys] exI [of _ ps] exI [of _ v1]) simp
  from refreshed_round obtain v5 where
    r5: "page_body (refreshing (counted_page 1 [dark])) trakt0 watchlist (1, []) world5
          = (Break (Inr [dark]), v5)" "length (sent v5) = 3"
    by blast
  have only: "rounds (page_body (refreshing (counted_page 1 [dark])) trakt0 watchlist)
                ((1, []), world5) (s1, w1) \<Longrightarrow> w1 = world5" for s1 w1
    using rounds_of_one [where body = "page_body (refreshing (counted_page 1 [dark])) trakt0 watchlist"
        and sw = "((1, []), world5)" and p = "(s1, w1)" and r = "Inr [dark]" and ?w1.0 = v5] r5(1)
    by simp
  have "0 < (1 :: int) \<and>
        address_of watchlist = Some ''https://api.trakt.tv/sync/watchlist/shows'' \<and>
        (\<forall>k hs pg. \<exists>t req.
            refreshing (counted_page 1 [dark]) k
              (page_request ''https://api.trakt.tv/sync/watchlist/shows'' hs pg) = (t, Some req) \<and>
            status_code req = 200 \<and> page_count req = Count 1 \<and> items_of req \<noteq> None) \<and>
        (\<forall>s1 w1.
            rounds (page_body (refreshing (counted_page 1 [dark])) trakt0 watchlist)
              ((1, []), world5) (s1, w1) \<longrightarrow>
            (\<exists>hs w2.
                request_headers (refreshing (counted_page 1 [dark])) trakt0 watchlist w1 = (Inr hs, w2)))"
    using refreshed_headers only
    by (simp add: watchlist_def user_list_def refreshing_def page_request_def counted_page_def) blast
  from page_requests
         [where N = 1 and ep = watchlist and a = "''https://api.trakt.tv/sync/watchlist/shows''"
            and srv = "refreshing (counted_page 1 [dark])" and self = trakt0 and w = world5,
          THEN conjunct1, THEN mp, OF this]
  obtain zs rs v2 where
    k: "while_loop (page_body (refreshing (counted_page 1 [dark])) trakt0 watchlist) (1, []) world5
          = Some (Inr zs, v2)"
      "fetch (refreshing (counted_page 1 [dark])) trakt0 watchlist world5
        = Some (Inr (if zs = [] then None else Some zs), v2)"
      "sent v2 = sent world5 @ rs" "pages_of rs = [1..1]"
    by blast
  from k(1) r5(1) have "v2 = v5" by (subst (asm) while_loop.simps) simp
  with k(3) r5(2) have "length rs = 3"
    by (simp add: world5_def world2_def world1_def world0_def Trakt_init_def)
  with k have 4: "\<exists>xs qs w1. get_watchlist_shows (refreshing (counted_page 1 [dark])) trakt0 (Some ''alice'') world5
                  = Some (Inr (if xs = [] then None else Some xs), w1) \<and>
                sent w1 = sent world5 @ qs \<and> pages_of qs = [1] \<and> length qs = 3"
    unfolding get_watchlist_shows_def watchlist_def [symmetric]
    by (intro exI [of _ zs] exI [of _ rs] exI [of _ v2]) simp
  from 1 2 3 4 show ?thesis by blast
qed

subsection \<open>Revoked authorization\<close>

text \<open>
  C8, as the claim states it, fails: the status is looked at after the call of
  \<^verbatim>\<open>log.debug("Response Page: ...")\<close>, whose argument
  \<^verbatim>\<open>int(req.headers['X-Pagination-Page-Count'])\<close> raises when the header is there and is not
  an integer. On a 401 response with such a header the watchlist of a user does not
  exit: the exception is caught and the method returns \<^verbatim>\<open>None\<close>, the value that the
  retry predicate selects.
\<close>

theorem unauthorized_with_odd_page_count_counterexample:
  "map_option fst (get_watchlist_shows (answering odd_401) trakt0 (Some ''alice'') world2)
     = Some (Inr None)"
  by (simp add: get_watchlist_shows_def fetch_def while_loop.simps user_list_def page_body_def
      request_headers_def oauth_headers_def http_def answering_def odd_401_def
      world2_def world1_def world0_def Trakt_init_def trakt0_def token_body_def py_round_def Let_def)

text \<open>
  C8, amended. For the four lists of a user: when the loop has come to a round in which
  the headers are obtained and the page request is answered with status 401, the
  page-count header being absent or an integer, the method neither returns a list nor
  \<^verbatim>\<open>None\<close>: it ends with the \<^verbatim>\<open>SystemExit\<close> of \<^verbatim>\<open>exit()\<close>, which \<^verbatim>\<open>except Exception\<close> does not
  catch.
\<close>

theorem unauthorized_exits:
  assumes "user_of ep = Some user" and "address_of ep = Some a"
    and "rounds (page_body srv self ep) ((1, []), w) ((pg, processed), w1)"
    and "oauth_headers srv self user w1 = (Inr hs, w2)"
    and "srv (length (sent w2)) (page_request a (heap w2 hs) pg) = (t, Some req)"
    and "status_code req = 401" and "page_count req \<noteq> NotAnInt"
  shows "\<exists>w3. fetch srv self ep w = Some (Inl SystemExit, w3)"
proof -
  have "\<exists>w3. page_body srv self ep (pg, processed) w1 = (Break (Inl SystemExit), w3)"
    using assms(1,2,4-7) by (simp add: page_body_def request_headers_def http_def)
  then obtain w3 where "page_body srv self ep (pg, processed) w1 = (Break (Inl SystemExit), w3)"
    by blast
  then have "while_loop (page_body srv self ep) (pg, processed) w1 = Some (Inl SystemExit, w3)"
    by (subst while_loop.simps) simp
  with while_loop_rounds [OF assms(3)] show ?thesis by (simp add: fetch_def)
qed

theorem unauthorized_exits_witness:
  "\<exists>w3. get_watchlist_shows (answering (plain_response 401)) trakt0 None world2
          = Some (Inl SystemExit, w3)"
  using unauthorized_exits
          [where ep = "user_list (Some ''https://api.trakt.tv/sync/watchlist/shows'') None"
             and user = None and a = "''https://api.trakt.tv/sync/watchlist/shows''"
             and srv = "answering (plain_response 401)" and self = trakt0 and w = world2
             and pg = 1 and processed = "[]" and ?w1.0 = world2 and hs = 0
             and ?w2.0 = "snd (oauth_headers (answering (plain_response 401)) trakt0 None world2)"
             and t = 0 and req = "plain_response 401", OF _ _ rounds.first]
  by (simp add: get_watchlist_shows_def user_list_def oauth_headers_world2 answering_def
      plain_response_def)

subsection \<open>The shared header dict\<close>


lemma sleep_frame: "sleep d w = (r, w1) \<Longrightarrow> heap w1 = heap w"
  by (auto simp: sleep_def split: if_splits)

















end
